theory Spec2Isabelle
  imports Main
begin

section \<open>Text as the transformer sees it\<close>

text \<open>
  The transformer (\<^verbatim>\<open>lib/transformer.ts\<close>, kept as \<^verbatim>\<open>src/unnamed/part_001\<close>) works on
  JavaScript strings with \<^verbatim>\<open>split\<close>, \<^verbatim>\<open>trim\<close>, \<^verbatim>\<open>includes\<close> and regular expressions.
  A text is modelled as a \<^typ>\<open>string\<close>: a list of code units below 256, read as the
  Latin-1 range of UTF-16. White space (\<^verbatim>\<open>\s\<close> and what \<^verbatim>\<open>trim\<close> removes) in that range is
  tab, line feed, vertical tab, form feed, carriage return, space and no-break space;
  the line terminators are line feed and carriage return.
\<close>

definition isSpace :: "char \<Rightarrow> bool" where
  "isSpace c = (c \<in> set [CHR 0x09, CHR 0x0A, CHR 0x0B, CHR 0x0C, CHR 0x0D, CHR 0x20, CHR 0xA0])"

definition isWordChar :: "char \<Rightarrow> bool" where
  "isWordChar c =
     (c \<in> set ''abcdefghijklmnopqrstuvwxyzABCDEFGHIJKLMNOPQRSTUVWXYZ0123456789_'')"

definition isLineTerminator :: "char \<Rightarrow> bool" where
  "isLineTerminator c = (c = CHR 0x0A \<or> c = CHR 0x0D)"

text \<open>\<^verbatim>\<open>toLowerCase\<close> on the Latin-1 range: A-Z and the accented capitals move by 32.\<close>

definition lowerChar :: "char \<Rightarrow> char" where
  "lowerChar c =
     (let n = (of_char c :: nat) in
      if (65 \<le> n \<and> n \<le> 90) \<or> (192 \<le> n \<and> n \<le> 222 \<and> n \<noteq> 215)
      then char_of (n + 32) else c)"

definition toLowerCase :: "string \<Rightarrow> string" where
  "toLowerCase s = map lowerChar s"

text \<open>\<^verbatim>\<open>s.split('\n')\<close>: the empty text is one empty line.\<close>

fun split_acc :: "string \<Rightarrow> string \<Rightarrow> string list" where
  "split_acc cur [] = [rev cur]"
| "split_acc cur (c # cs) =
     (if c = CHR 0x0A then rev cur # split_acc [] cs else split_acc (c # cur) cs)"

definition split_nl :: "string \<Rightarrow> string list" where
  "split_nl s = split_acc [] s"

text \<open>\<^verbatim>\<open>lines.join(sep)\<close>.\<close>

fun join :: "string \<Rightarrow> string list \<Rightarrow> string" where
  "join sep [] = []"
| "join sep [l] = l"
| "join sep (l # m # ls) = l @ sep @ join sep (m # ls)"

definition join_nl :: "string list \<Rightarrow> string" where
  "join_nl ls = join [CHR 0x0A] ls"

definition trimStart :: "string \<Rightarrow> string" where
  "trimStart s = dropWhile isSpace s"

definition trimEnd :: "string \<Rightarrow> string" where
  "trimEnd s = rev (dropWhile isSpace (rev s))"

definition trim :: "string \<Rightarrow> string" where
  "trim s = trimEnd (trimStart s)"

fun startsWith :: "string \<Rightarrow> string \<Rightarrow> bool" where
  "startsWith s [] = True"
| "startsWith [] (p # ps) = False"
| "startsWith (c # cs) (p # ps) = (c = p \<and> startsWith cs ps)"

definition endsWith :: "string \<Rightarrow> string \<Rightarrow> bool" where
  "endsWith s p = startsWith (rev s) (rev p)"

fun includes_str :: "string \<Rightarrow> string \<Rightarrow> bool" where
  "includes_str [] p = (p = [])"
| "includes_str (c # cs) p = (startsWith (c # cs) p \<or> includes_str cs p)"

text \<open>
  \<^verbatim>\<open>s.repeat(n)\<close> raises a RangeError on a negative count; this is the one operation of
  the third-generation pipeline that rejects an argument. The other way to a RangeError,
  a result longer than the engine allows a string to be, is the subject of the section
  on the engine's limit below.
\<close>

datatype error = RangeError

definition repeat :: "string \<Rightarrow> int \<Rightarrow> error + string" where
  "repeat s n = (if n < 0 then Inl RangeError else Inr (concat (replicate (nat n) s)))"

section \<open>Regular expressions with JavaScript's backtracking order\<close>

text \<open>
  A character class lists what it accepts: a character, a range, \<^verbatim>\<open>\s\<close>, \<^verbatim>\<open>\w\<close>, or
  \<^verbatim>\<open>.\<close> (anything but a line terminator).
\<close>

datatype cls = CChar char | CRange char char | CSpace | CWord | CDot

fun in_cls :: "cls \<Rightarrow> char \<Rightarrow> bool" where
  "in_cls (CChar d) c = (c = d)"
| "in_cls (CRange a b) c = ((of_char a :: nat) \<le> of_char c \<and> (of_char c :: nat) \<le> of_char b)"
| "in_cls CSpace c = isSpace c"
| "in_cls CWord c = isWordChar c"
| "in_cls CDot c = (\<not> isLineTerminator c)"

text \<open>
  The constructors follow the pattern syntax: \<^verbatim>\<open>RSet\<close> is a class \<^verbatim>\<open>[...]\<close> and \<^verbatim>\<open>RNotSet\<close> a
  negated class \<^verbatim>\<open>[^...]\<close> (\<^verbatim>\<open>\S\<close> is \<^verbatim>\<open>RNotSet [CSpace]\<close>), \<^verbatim>\<open>RBol\<close>/\<^verbatim>\<open>REol\<close> are \<^verbatim>\<open>^\<close>/\<^verbatim>\<open>$\<close> without the
  \<^verbatim>\<open>m\<close> flag and \<^verbatim>\<open>RBolM\<close>/\<^verbatim>\<open>REolM\<close> with it, \<^verbatim>\<open>RWordB\<close> is \<^verbatim>\<open>\b\<close>, \<^verbatim>\<open>RAhead\<close> is \<^verbatim>\<open>(?=r)\<close>,
  \<^verbatim>\<open>RNotAhead\<close> is \<^verbatim>\<open>(?!r)\<close> and \<^verbatim>\<open>RNotBehind c\<close> is \<^verbatim>\<open>(?<!c)\<close> for one character.
\<close>

datatype re =
    REps
  | RChr char
  | RSet "cls list"
  | RNotSet "cls list"
  | RSeq re re
  | RAlt re re
  | RStar re
  | RStarLazy re
  | RGrp nat re
  | RBol | RBolM | REol | REolM | RWordB
  | RAhead re | RNotAhead re | RNotBehind char

definition RLit :: "string \<Rightarrow> re" where
  "RLit s = foldr (\<lambda>c r. RSeq (RChr c) r) s REps"

definition RSeqs :: "re list \<Rightarrow> re" where
  "RSeqs rs = foldr RSeq rs REps"

fun RAlts :: "re list \<Rightarrow> re" where
  "RAlts [] = REps"
| "RAlts [r] = r"
| "RAlts (r # q # rs) = RAlt r (RAlts (q # rs))"

definition RPlus :: "re \<Rightarrow> re" where
  "RPlus r = RSeq r (RStar r)"

definition RPlusLazy :: "re \<Rightarrow> re" where
  "RPlusLazy r = RSeq r (RStarLazy r)"

definition ROpt :: "re \<Rightarrow> re" where
  "ROpt r = RAlt r REps"

text \<open>\<^verbatim>\<open>\s\<close>, \<^verbatim>\<open>\w\<close> and \<^verbatim>\<open>.\<close> as one-character patterns.\<close>

definition rs :: re where "rs = RSet [CSpace]"
definition rw :: re where "rw = RSet [CWord]"
definition rdot :: re where "rdot = RSet [CDot]"

text \<open>
  A matcher state is the text already passed (reversed), the text still ahead, and the
  captures made so far (latest first). \<^verbatim>\<open>rmatch r st\<close> lists every way \<^verbatim>\<open>r\<close> matches at
  \<^verbatim>\<open>st\<close>, in the order a backtracking engine tries them: the head of the list is the
  match JavaScript reports. An iteration of a star that consumes nothing is rejected,
  as the language requires.
\<close>

type_synonym caps = "(nat \<times> string) list"
type_synonym mstate = "string \<times> string \<times> caps"

function (sequential) rmatch :: "re \<Rightarrow> mstate \<Rightarrow> mstate list" where
  "rmatch REps st = [st]"
| "rmatch (RChr c) (pre, [], caps) = []"
| "rmatch (RChr c) (pre, x # xs, caps) = (if x = c then [(x # pre, xs, caps)] else [])"
| "rmatch (RSet cs) (pre, [], caps) = []"
| "rmatch (RSet cs) (pre, x # xs, caps) =
     (if list_ex (\<lambda>k. in_cls k x) cs then [(x # pre, xs, caps)] else [])"
| "rmatch (RNotSet cs) (pre, [], caps) = []"
| "rmatch (RNotSet cs) (pre, x # xs, caps) =
     (if list_ex (\<lambda>k. in_cls k x) cs then [] else [(x # pre, xs, caps)])"
| "rmatch (RSeq r1 r2) st = concat (map (rmatch r2) (rmatch r1 st))"
| "rmatch (RAlt r1 r2) st = rmatch r1 st @ rmatch r2 st"
| "rmatch (RStar r) (pre, rest, caps) =
     concat (map (\<lambda>(pre', rest', caps').
        if length rest' < length rest then rmatch (RStar r) (pre', rest', caps') else [])
        (rmatch r (pre, rest, caps))) @ [(pre, rest, caps)]"
| "rmatch (RStarLazy r) (pre, rest, caps) =
     (pre, rest, caps) # concat (map (\<lambda>(pre', rest', caps').
        if length rest' < length rest then rmatch (RStarLazy r) (pre', rest', caps') else [])
        (rmatch r (pre, rest, caps)))"
| "rmatch (RGrp n r) (pre, rest, caps) =
     map (\<lambda>(pre', rest', caps').
            (pre', rest', (n, take (length rest - length rest') rest) # caps'))
       (rmatch r (pre, rest, caps))"
| "rmatch RBol (pre, rest, caps) = (if pre = [] then [(pre, rest, caps)] else [])"
| "rmatch RBolM (pre, rest, caps) =
     (case pre of [] \<Rightarrow> [(pre, rest, caps)]
      | p # _ \<Rightarrow> if isLineTerminator p then [(pre, rest, caps)] else [])"
| "rmatch REol (pre, rest, caps) = (if rest = [] then [(pre, rest, caps)] else [])"
| "rmatch REolM (pre, rest, caps) =
     (case rest of [] \<Rightarrow> [(pre, rest, caps)]
      | x # _ \<Rightarrow> if isLineTerminator x then [(pre, rest, caps)] else [])"
| "rmatch RWordB (pre, rest, caps) =
     (if (case pre of [] \<Rightarrow> False | p # _ \<Rightarrow> isWordChar p)
         \<noteq> (case rest of [] \<Rightarrow> False | x # _ \<Rightarrow> isWordChar x)
      then [(pre, rest, caps)] else [])"
| "rmatch (RAhead r) (pre, rest, caps) =
     (case rmatch r (pre, rest, caps) of [] \<Rightarrow> []
      | (_, _, caps') # _ \<Rightarrow> [(pre, rest, caps')])"
| "rmatch (RNotAhead r) (pre, rest, caps) =
     (case rmatch r (pre, rest, caps) of [] \<Rightarrow> [(pre, rest, caps)] | _ # _ \<Rightarrow> [])"
| "rmatch (RNotBehind c) (pre, rest, caps) =
     (case pre of [] \<Rightarrow> [(pre, rest, caps)]
      | p # _ \<Rightarrow> if p = c then [] else [(pre, rest, caps)])"
  by pat_completeness auto
termination
  by (relation "measures [\<lambda>(r, st). size r, \<lambda>(r, pre, rest, caps). length rest]") auto

text \<open>
  What a replacer function receives: the matched text and the groups. A group that took
  no part in the match is \<^verbatim>\<open>undefined\<close>; a template literal prints it as the word
  ``undefined'', and \<^verbatim>\<open>g || d\<close> replaces an undefined or empty group by \<^verbatim>\<open>d\<close>.
\<close>

type_synonym groups = "nat \<Rightarrow> string option"

definition grp :: "groups \<Rightarrow> nat \<Rightarrow> string" where
  "grp g n = (case g n of None \<Rightarrow> ''undefined'' | Some s \<Rightarrow> s)"

definition grp_or :: "groups \<Rightarrow> nat \<Rightarrow> string \<Rightarrow> string" where
  "grp_or g n d = (case g n of None \<Rightarrow> d | Some s \<Rightarrow> if s = [] then d else s)"

text \<open>
  \<^verbatim>\<open>re_search\<close> finds the leftmost match at or after the current position:
  the state where it starts and the state where it ends.
\<close>

fun re_search :: "re \<Rightarrow> string \<Rightarrow> string \<Rightarrow> (string \<times> string \<times> mstate) option" where
  "re_search r pre [] =
     (case rmatch r (pre, [], []) of [] \<Rightarrow> None | m # _ \<Rightarrow> Some (pre, [], m))"
| "re_search r pre (x # xs) =
     (case rmatch r (pre, x # xs, []) of
        [] \<Rightarrow> re_search r (x # pre) xs
      | m # _ \<Rightarrow> Some (pre, x # xs, m))"

text \<open>\<^verbatim>\<open>re.test(s)\<close>, and \<^verbatim>\<open>s.match(re)\<close> read as a truth value.\<close>

definition re_test :: "re \<Rightarrow> string \<Rightarrow> bool" where
  "re_test r s = (re_search r [] s \<noteq> None)"

text \<open>
  \<^verbatim>\<open>s.replace(re, f)\<close> without the \<^verbatim>\<open>g\<close> flag: the first match is replaced by what \<^verbatim>\<open>f\<close>
  returns; the text around it stays.
\<close>

definition replace_first :: "re \<Rightarrow> (string \<Rightarrow> groups \<Rightarrow> string) \<Rightarrow> string \<Rightarrow> string" where
  "replace_first r f s =
     (case re_search r [] s of
        None \<Rightarrow> s
      | Some (pre, rest, (pre', rest', caps)) \<Rightarrow>
          rev pre @ f (take (length rest - length rest') rest) (map_of caps) @ rest')"

text \<open>
  \<^verbatim>\<open>s.replace(re, f)\<close> with the \<^verbatim>\<open>g\<close> flag: every match from left to right, the search
  resuming where the last match ended, one character further after an empty match.
\<close>

function replace_from :: "re \<Rightarrow> (string \<Rightarrow> groups \<Rightarrow> string) \<Rightarrow> string \<Rightarrow> string \<Rightarrow> string" where
  "replace_from r f pre [] =
     (case rmatch r (pre, [], []) of [] \<Rightarrow> [] | (pre', rest', caps) # _ \<Rightarrow> f [] (map_of caps))"
| "replace_from r f pre (x # xs) =
     (case rmatch r (pre, x # xs, []) of
        [] \<Rightarrow> x # replace_from r f (x # pre) xs
      | (pre', rest', caps) # _ \<Rightarrow>
          if length rest' < length (x # xs)
          then f (take (length (x # xs) - length rest') (x # xs)) (map_of caps)
               @ replace_from r f pre' rest'
          else f [] (map_of caps) @ x # replace_from r f (x # pre) xs)"
  by pat_completeness auto
termination
  by (relation "measure (\<lambda>(r, f, pre, rest). length rest)") auto

definition replace_all :: "re \<Rightarrow> (string \<Rightarrow> groups \<Rightarrow> string) \<Rightarrow> string \<Rightarrow> string" where
  "replace_all r f s = replace_from r f [] s"

section \<open>The data model\<close>

text \<open>The third generation's \<^verbatim>\<open>SUPPORTED_LANGUAGES\<close>.\<close>

definition SUPPORTED_LANGUAGES :: "string list" where
  "SUPPORTED_LANGUAGES =
     [''python'', ''javascript'', ''typescript'', ''java'', ''cpp'', ''go'', ''rust'',
      ''csharp'', ''php'', ''ruby'']"

datatype ChangeType = Added | Removed | Changed | Warning | Unchanged

record LineTransformation =
  original :: string
  transformed :: string
  lwarnings :: "string list"
  lineNumber :: nat
  changeType :: ChangeType

datatype NodeType =
  TFunction | TClass | TIf | TFor | TWhile | TImport | TVariable | TStatement | TBlock | TComment

datatype ASTNode =
  ASTNode (ntype: NodeType) (content: string) (lineStart: nat) (lineEnd: nat)
    (children: "ASTNode list") (language: string)

record Statistics =
  functionsDetected :: nat
  classesDetected :: nat
  importsDetected :: nat
  linesTransformed :: nat
  mixedLanguageDetected :: bool
  normalizationApplied :: bool

record TransformationResult =
  code :: string
  lines :: "LineTransformation list"
  warnings :: "string list"
  errors :: "string list"
  statistics :: Statistics
  ast :: "ASTNode list"

text \<open>
  The report of \<^verbatim>\<open>detectMixedLanguages\<close>. The confidence is one of the two literals
  \<^verbatim>\<open>0.7\<close> and \<^verbatim>\<open>1.0\<close>, kept in tenths.
\<close>

record MixedReport =
  detected :: bool
  languages :: "string list"
  confidence_tenths :: nat

section \<open>Mixed-language detection\<close>

text \<open>
  \<^verbatim>\<open>pythonPatterns = [/^def\s+/, /^import\s+/, /^\s+[a-z]/, /print\(/, /:\s*$/m]\<close>,
  \<^verbatim>\<open>jsPatterns = [/function\s+/, /const\s+/, /let\s+/, /console\.log/, /{\s*$/m]\<close>,
  \<^verbatim>\<open>javaPatterns = [/public\s+class/, /public\s+static/, /;$/m]\<close>.
\<close>

definition pythonPatterns :: "re list" where
  "pythonPatterns =
     [RSeqs [RBol, RLit ''def'', RPlus rs],
      RSeqs [RBol, RLit ''import'', RPlus rs],
      RSeqs [RBol, RPlus rs, RSet [CRange CHR ''a'' CHR ''z'']],
      RLit ''print('',
      RSeqs [RChr CHR '':'', RStar rs, REolM]]"

definition jsPatterns :: "re list" where
  "jsPatterns =
     [RSeqs [RLit ''function'', RPlus rs],
      RSeqs [RLit ''const'', RPlus rs],
      RSeqs [RLit ''let'', RPlus rs],
      RLit ''console.log'',
      RSeqs [RChr CHR ''{'', RStar rs, REolM]]"

definition javaPatterns :: "re list" where
  "javaPatterns =
     [RSeqs [RLit ''public'', RPlus rs, RLit ''class''],
      RSeqs [RLit ''public'', RPlus rs, RLit ''static''],
      RSeqs [RChr CHR '';'', REolM]]"

text \<open>
  The \<^verbatim>\<open>indicators\<close> object: keys in the order of their first assignment.
  \<^verbatim>\<open>get0\<close> is \<^verbatim>\<open>indicators[k] || 0\<close> and \<^verbatim>\<open>put\<close> is the assignment.
\<close>

type_synonym indicators = "(string \<times> int) list"

definition get0 :: "indicators \<Rightarrow> string \<Rightarrow> int" where
  "get0 m k = (case map_of m k of None \<Rightarrow> 0 | Some v \<Rightarrow> v)"

fun put :: "string \<Rightarrow> int \<Rightarrow> indicators \<Rightarrow> indicators" where
  "put k v [] = [(k, v)]"
| "put k v ((k', v') # m) = (if k' = k then (k, v) # m else (k', v') # put k v m)"

text \<open>One \<^verbatim>\<open>forEach\<close> over a language's patterns: a hit counts once per pattern.\<close>

definition count_hits :: "string \<Rightarrow> re list \<Rightarrow> string \<Rightarrow> indicators \<Rightarrow> indicators" where
  "count_hits lang ps src m =
     foldl (\<lambda>m p. put lang (get0 m lang + (if re_test p src then 1 else 0)) m) m ps"

definition mixed_indicators :: "string \<Rightarrow> indicators" where
  "mixed_indicators src =
     count_hits ''java'' javaPatterns src
       (count_hits ''javascript'' jsPatterns src
         (count_hits ''python'' pythonPatterns src []))"

definition detectMixedLanguages :: "string \<Rightarrow> MixedReport" where
  "detectMixedLanguages src =
     (let indicators = mixed_indicators src;
          det = (length (filter (\<lambda>v. v > 0) (map snd indicators)) > 1);
          langs = map fst (sort_key (\<lambda>(l, c). - c) (filter (\<lambda>(l, c). c > 0) indicators))
      in \<lparr> detected = det, languages = langs,
           confidence_tenths = (if det then 7 else 10) \<rparr>)"

section \<open>Normalisation\<close>

text \<open>
  \<^verbatim>\<open>preprocessCode\<close>: CRLF to LF, \<^verbatim>\<open>trimEnd\<close> on every line, then
  \<^verbatim>\<open>/(\w)\s+{/g\<close> to \<^verbatim>\<open>'$1 {'\<close>, \<^verbatim>\<open>/,\s+/g\<close> to \<^verbatim>\<open>', '\<close> and \<^verbatim>\<open>/\s+;/g\<close> to \<^verbatim>\<open>';'\<close>.
  Its list of warnings is always empty.
\<close>

definition preprocessCode :: "string \<Rightarrow> string \<times> string list" where
  "preprocessCode src =
     (let p1 = replace_all (RLit [CHR 0x0D, CHR 0x0A]) (\<lambda>m g. [CHR 0x0A]) src;
          p2 = join_nl (map trimEnd (split_nl p1));
          p3 = replace_all (RSeqs [RGrp 1 rw, RPlus rs, RChr CHR ''{''])
                 (\<lambda>m g. grp g 1 @ '' {'') p2;
          p4 = replace_all (RSeqs [RChr CHR '','', RPlus rs]) (\<lambda>m g. '', '') p3;
          p5 = replace_all (RSeqs [RPlus rs, RChr CHR '';'']) (\<lambda>m g. '';'') p4
      in (p5, []))"

text \<open>
  The two auto-corrections of \<^verbatim>\<open>normalizeCode\<close>:
  \<^verbatim>\<open>/^(\s*(?:if|elif|else|for|while|def|class|try|except|finally|with).+?)(\n)/gm\<close> and
  \<^verbatim>\<open>/^(\s*(?:function|if|else|for|while|class|try|catch|finally).+?)(\n(?!\s*{))/gm\<close>,
  each with the replacer of the source.
\<close>

definition colon_re :: re where
  "colon_re =
     RSeqs [RBolM,
       RGrp 1 (RSeqs [RStar rs,
          RAlts (map RLit [''if'', ''elif'', ''else'', ''for'', ''while'', ''def'', ''class'',
                           ''try'', ''except'', ''finally'', ''with'']),
          RPlusLazy rdot]),
       RGrp 2 (RChr CHR 0x0A)]"

definition colon_fix :: "string \<Rightarrow> groups \<Rightarrow> string" where
  "colon_fix m g =
     (let content = grp g 1; newline = grp g 2 in
      if \<not> endsWith (trim content) '':'' \<and> \<not> endsWith (trim content) ''{''
         \<and> \<not> endsWith (trim content) ''else''
      then content @ '':'' @ newline else m)"

definition brace_re :: re where
  "brace_re =
     RSeqs [RBolM,
       RGrp 1 (RSeqs [RStar rs,
          RAlts (map RLit [''function'', ''if'', ''else'', ''for'', ''while'', ''class'',
                           ''try'', ''catch'', ''finally'']),
          RPlusLazy rdot]),
       RGrp 2 (RSeq (RChr CHR 0x0A) (RNotAhead (RSeq (RStar rs) (RChr CHR ''{''))))]"

definition brace_fix :: "string \<Rightarrow> groups \<Rightarrow> string" where
  "brace_fix m g =
     (let content = grp g 1; newline = grp g 2 in
      if \<not> endsWith (trim content) ''{'' \<and> \<not> endsWith (trim content) ''else''
      then content @ '' {'' @ newline else m)"

text \<open>The quote step, line by line: comment lines stay, \<^verbatim>\<open>/(?<!\\)'/g\<close> becomes a double quote.\<close>

definition fix_quotes :: "string \<Rightarrow> string" where
  "fix_quotes line =
     (if startsWith (trim line) ''//'' \<or> startsWith (trim line) ''#''
         \<or> startsWith (trim line) ''/*''
      then line
      else replace_all (RSeq (RNotBehind CHR 0x5C) (RChr CHR 0x27)) (\<lambda>m g. [CHR 0x22]) line)"

definition normalizeCode :: "string \<Rightarrow> string \<times> string list" where
  "normalizeCode src =
     (let (preprocessed, prepWarnings) = preprocessCode src;
          warnings0 = [] @ prepWarnings;
          mixed = detectMixedLanguages preprocessed;
          warnings1 =
            (if detected mixed
             then warnings0 @ [''Mixed languages detected: '' @ join '', '' (languages mixed)
                                @ ''. Normalizing code...'']
             else warnings0);
          n1 = replace_all (RSeqs [RBolM, RStar rs, RLit ''elif'', RPlus rs])
                 (\<lambda>m g. ''else if '') preprocessed;
          n2 = replace_all colon_re colon_fix n1;
          n3 = replace_all brace_re brace_fix n2;
          n4 = join_nl (map fix_quotes (split_nl n3));
          n5 = replace_all (RSeq (RChr CHR '';'') (RPlus (RChr CHR '';''))) (\<lambda>m g. '';'') n4;
          n6 = replace_all (RLit ''||'') (\<lambda>m g. ''or'') n5;
          n7 = replace_all (RLit ''&&'') (\<lambda>m g. ''and'') n6
      in (n7, warnings1))"

section \<open>The per-line rules\<close>

text \<open>
  Every rule is \<^verbatim>\<open>line.replace(pattern, replacer)\<close> with a \<^verbatim>\<open>switch (target)\<close> in the
  replacer. The parameter \<^verbatim>\<open>warnings\<close> is kept only where the rule writes to it
  (\<^verbatim>\<open>transformClassDef\<close>). In \<^verbatim>\<open>transformFunctionDef\<close>, \<^verbatim>\<open>transformClassDef\<close> and
  \<^verbatim>\<open>transformImportStatement\<close> the default case returns \<^verbatim>\<open>line\<close>, the whole line, in
  place of the match; in the others it returns the match.
\<close>

definition py_def_re :: re where
  \<comment> \<open>\<^verbatim>\<open>/^(\s*)def\s+(\w+)\s*\((.*?)\)\s*(?:->.*)?:/\<close>\<close>
  "py_def_re =
     RSeqs [RBol, RGrp 1 (RStar rs), RLit ''def'', RPlus rs, RGrp 2 (RPlus rw), RStar rs,
            RChr CHR ''('', RGrp 3 (RStarLazy rdot), RChr CHR '')'', RStar rs,
            ROpt (RSeq (RLit ''->'') (RStar rdot)), RChr CHR '':'']"

definition js_function_re :: re where
  \<comment> \<open>\<^verbatim>\<open>/^(\s*)(?:async\s+)?function\s+(\w+)\s*\((.*?)\)\s*{/\<close>\<close>
  "js_function_re =
     RSeqs [RBol, RGrp 1 (RStar rs), ROpt (RSeq (RLit ''async'') (RPlus rs)),
            RLit ''function'', RPlus rs, RGrp 2 (RPlus rw), RStar rs,
            RChr CHR ''('', RGrp 3 (RStarLazy rdot), RChr CHR '')'', RStar rs, RChr CHR ''{'']"

definition transformFunctionDef :: "string \<Rightarrow> string \<Rightarrow> string \<Rightarrow> string" where
  "transformFunctionDef line source target =
     (if source = ''python'' then
        replace_first py_def_re
          (\<lambda>m g. let indent = grp g 1; name = grp g 2; params = grp g 3 in
             if target = ''javascript'' \<or> target = ''typescript''
               then indent @ ''function '' @ name @ ''('' @ params @ '') {''
             else if target = ''java''
               then indent @ ''public static Object '' @ name @ ''('' @ params @ '') {''
             else if target = ''cpp'' then indent @ ''void '' @ name @ ''('' @ params @ '') {''
             else if target = ''csharp''
               then indent @ ''public static object '' @ name @ ''('' @ params @ '') {''
             else if target = ''go'' then indent @ ''func '' @ name @ ''('' @ params @ '') {''
             else if target = ''rust'' then indent @ ''fn '' @ name @ ''('' @ params @ '') {''
             else if target = ''php''
               then indent @ ''function '' @ name @ ''('' @ params @ '') {''
             else if target = ''ruby'' then indent @ ''def '' @ name @ ''('' @ params @ '')''
             else line)
          line
      else if source = ''javascript'' \<or> source = ''typescript'' then
        replace_first js_function_re
          (\<lambda>m g. let indent = grp g 1; name = grp g 2; params = grp g 3 in
             if target = ''python'' then indent @ ''def '' @ name @ ''('' @ params @ ''):''
             else if target = ''java''
               then indent @ ''public static Object '' @ name @ ''('' @ params @ '') {''
             else if target = ''cpp'' then indent @ ''void '' @ name @ ''('' @ params @ '') {''
             else if target = ''csharp''
               then indent @ ''public static object '' @ name @ ''('' @ params @ '') {''
             else if target = ''go'' then indent @ ''func '' @ name @ ''('' @ params @ '') {''
             else if target = ''rust'' then indent @ ''fn '' @ name @ ''('' @ params @ '') {''
             else if target = ''php''
               then indent @ ''function '' @ name @ ''('' @ params @ '') {''
             else if target = ''ruby'' then indent @ ''def '' @ name @ ''('' @ params @ '')''
             else line)
          line
      else line)"

definition py_class_re :: re where
  \<comment> \<open>\<^verbatim>\<open>/^(\s*)class\s+(\w+)(?:\((.*?)\))?\s*:/\<close>\<close>
  "py_class_re =
     RSeqs [RBol, RGrp 1 (RStar rs), RLit ''class'', RPlus rs, RGrp 2 (RPlus rw),
            ROpt (RSeqs [RChr CHR ''('', RGrp 3 (RStarLazy rdot), RChr CHR '')'']),
            RStar rs, RChr CHR '':'']"

text \<open>
  The replacer of \<^verbatim>\<open>transformClassDef\<close> runs when the pattern matches and, for Go only,
  pushes a warning before it returns. The function returns the line and the list
  \<^verbatim>\<open>warnings\<close> as the call leaves it.
\<close>

definition go_class_warning :: string where
  "go_class_warning = ''Go does not have classes. Converting to struct.''"

definition transformClassDef ::
  "string \<Rightarrow> string \<Rightarrow> string \<Rightarrow> string list \<Rightarrow> string \<times> string list" where
  "transformClassDef line source target ws =
     (if source = ''python'' then
        (case re_search py_class_re [] line of
           None \<Rightarrow> (line, ws)
         | Some (pre, rest, (pre', rest', caps)) \<Rightarrow>
             (let g = map_of caps; indent = grp g 1; name = grp g 2;
                  (out, ws') =
                    (if target = ''javascript'' \<or> target = ''typescript''
                       then (indent @ ''class '' @ name @ '' {'', ws)
                     else if target = ''java'' then (indent @ ''public class '' @ name @ '' {'', ws)
                     else if target = ''cpp'' then (indent @ ''class '' @ name @ '' {'', ws)
                     else if target = ''csharp''
                       then (indent @ ''public class '' @ name @ '' {'', ws)
                     else if target = ''go''
                       then (indent @ ''type '' @ name @ '' struct {'', ws @ [go_class_warning])
                     else if target = ''rust'' then (indent @ ''struct '' @ name @ '' {'', ws)
                     else if target = ''php'' then (indent @ ''class '' @ name @ '' {'', ws)
                     else if target = ''ruby'' then (indent @ ''class '' @ name, ws)
                     else (line, ws))
              in (rev pre @ out @ rest', ws')))
      else (line, ws))"

definition py_import_re :: re where
  \<comment> \<open>\<^verbatim>\<open>/^(\s*)(?:from\s+(\S+)\s+)?import\s+([\w\s,.*]+)/\<close>\<close>
  "py_import_re =
     RSeqs [RBol, RGrp 1 (RStar rs),
            ROpt (RSeqs [RLit ''from'', RPlus rs, RGrp 2 (RPlus (RNotSet [CSpace])), RPlus rs]),
            RLit ''import'', RPlus rs,
            RGrp 3 (RPlus (RSet [CWord, CSpace, CChar CHR '','', CChar CHR ''.'', CChar CHR ''*'']))]"

definition transformImportStatement :: "string \<Rightarrow> string \<Rightarrow> string \<Rightarrow> string" where
  "transformImportStatement line source target =
     (if source = ''python'' \<and> includes_str line ''import '' then
        replace_first py_import_re
          (\<lambda>m g. let indent = grp g 1; names = grp g 3 in
             if target = ''javascript'' \<or> target = ''typescript''
               then indent @ ''import '' @ names @ '' from '' @ [CHR 0x27]
                    @ grp_or g 2 ''module'' @ [CHR 0x27] @ '';''
             else if target = ''java'' then indent @ ''import '' @ grp g 2 @ ''.*;''
             else if target = ''cpp''
               then indent @ ''#include '' @ [CHR 0x22] @ grp_or g 2 ''module.h'' @ [CHR 0x22]
             else if target = ''go''
               then indent @ ''import '' @ [CHR 0x22] @ grp_or g 2 ''package'' @ [CHR 0x22]
             else if target = ''csharp'' then indent @ ''using '' @ grp_or g 2 ''Namespace'' @ '';''
             else if target = ''php''
               then indent @ ''require('' @ [CHR 0x27] @ grp_or g 2 ''module'' @ [CHR 0x27] @ '');''
             else if target = ''ruby''
               then indent @ ''require '' @ [CHR 0x27] @ grp_or g 2 ''module'' @ [CHR 0x27]
             else line)
          line
      else line)"

text \<open>
  The three print patterns, each with the \<^verbatim>\<open>g\<close> flag:
  \<^verbatim>\<open>/\bprint\s*\((.*?)\)(?=;|$)/g\<close>, \<^verbatim>\<open>/\bconsole\.log\s*\((.*?)\)(?=;|$)/g\<close> and
  \<^verbatim>\<open>/System\.out\.println\s*\((.*?)\)(?=;|$)/g\<close>.
\<close>

definition call_tail :: "re list" where
  "call_tail =
     [RStar rs, RChr CHR ''('', RGrp 1 (RStarLazy rdot), RChr CHR '')'',
      RAhead (RAlt (RChr CHR '';'') REol)]"

definition py_print_re :: re where
  "py_print_re = RSeqs ([RWordB, RLit ''print''] @ call_tail)"

definition js_log_re :: re where
  "js_log_re = RSeqs ([RWordB, RLit ''console.log''] @ call_tail)"

definition java_println_re :: re where
  "java_println_re = RSeqs ([RLit ''System.out.println''] @ call_tail)"

definition transformPrintStatement :: "string \<Rightarrow> string \<Rightarrow> string \<Rightarrow> string" where
  "transformPrintStatement line source target =
     (if source = ''python'' \<and> includes_str line ''print'' then
        replace_all py_print_re
          (\<lambda>m g. let args = grp g 1 in
             if target = ''javascript'' \<or> target = ''typescript''
               then ''console.log('' @ args @ '')''
             else if target = ''java'' then ''System.out.println('' @ args @ '')''
             else if target = ''cpp'' then ''std::cout << '' @ args @ '' << std::endl;''
             else if target = ''go'' then ''fmt.Println('' @ args @ '')''
             else if target = ''csharp'' then ''Console.WriteLine('' @ args @ '');''
             else if target = ''php'' then ''echo '' @ args @ '';''
             else if target = ''ruby'' then ''puts '' @ args
             else m)
          line
      else if (source = ''javascript'' \<or> source = ''typescript'')
              \<and> includes_str line ''console.log'' then
        replace_all js_log_re
          (\<lambda>m g. let args = grp g 1 in
             if target = ''python'' then ''print('' @ args @ '')''
             else if target = ''java'' then ''System.out.println('' @ args @ '')''
             else if target = ''cpp'' then ''std::cout << '' @ args @ '' << std::endl;''
             else if target = ''go'' then ''fmt.Println('' @ args @ '')''
             else if target = ''csharp'' then ''Console.WriteLine('' @ args @ '');''
             else if target = ''php'' then ''echo '' @ args @ '';''
             else if target = ''ruby'' then ''puts '' @ args
             else m)
          line
      else if source = ''java'' \<and> includes_str line ''System.out.println'' then
        replace_all java_println_re
          (\<lambda>m g. let args = grp g 1 in
             if target = ''python'' then ''print('' @ args @ '')''
             else if target = ''javascript'' \<or> target = ''typescript''
               then ''console.log('' @ args @ '')''
             else if target = ''cpp'' then ''std::cout << '' @ args @ '' << std::endl;''
             else if target = ''go'' then ''fmt.Println('' @ args @ '')''
             else if target = ''csharp'' then ''Console.WriteLine('' @ args @ '');''
             else if target = ''php'' then ''echo '' @ args @ '';''
             else if target = ''ruby'' then ''puts '' @ args
             else m)
          line
      else line)"

definition if_re :: re where
  \<comment> \<open>\<^verbatim>\<open>/^(\s*)if\s+\(?(.*?)\)?\s*:?$/\<close>\<close>
  "if_re =
     RSeqs [RBol, RGrp 1 (RStar rs), RLit ''if'', RPlus rs, ROpt (RChr CHR ''(''),
            RGrp 2 (RStarLazy rdot), ROpt (RChr CHR '')''), RStar rs, ROpt (RChr CHR '':''),
            REol]"

definition transformConditionals :: "string \<Rightarrow> string \<Rightarrow> string \<Rightarrow> string" where
  "transformConditionals line source target =
     replace_first if_re
       (\<lambda>m g. let indent = grp g 1; condition = grp g 2;
                  cleanCond = trim (replace_first (RSeqs [RChr CHR '':'', RStar rs, REol])
                                      (\<lambda>m g. []) condition) in
          if target = ''python'' then indent @ ''if '' @ cleanCond @ '':''
          else if target = ''javascript'' \<or> target = ''typescript''
            then indent @ ''if ('' @ cleanCond @ '') {''
          else if target = ''java'' then indent @ ''if ('' @ cleanCond @ '') {''
          else if target = ''cpp'' then indent @ ''if ('' @ cleanCond @ '') {''
          else if target = ''go'' then indent @ ''if '' @ cleanCond @ '' {''
          else if target = ''csharp'' then indent @ ''if ('' @ cleanCond @ '') {''
          else m)
       line"

definition py_for_re :: re where
  \<comment> \<open>\<^verbatim>\<open>/^(\s*)for\s+(\w+)\s+in\s+([\w.]+)\s*:/\<close>\<close>
  "py_for_re =
     RSeqs [RBol, RGrp 1 (RStar rs), RLit ''for'', RPlus rs, RGrp 2 (RPlus rw), RPlus rs,
            RLit ''in'', RPlus rs, RGrp 3 (RPlus (RSet [CWord, CChar CHR ''.''])), RStar rs,
            RChr CHR '':'']"

definition transformLoops :: "string \<Rightarrow> string \<Rightarrow> string \<Rightarrow> string" where
  "transformLoops line source target =
     (if source = ''python'' then
        replace_first py_for_re
          (\<lambda>m g. let indent = grp g 1; var = grp g 2; iter = grp g 3 in
             if target = ''javascript'' \<or> target = ''typescript''
               then indent @ ''for (let '' @ var @ '' of '' @ iter @ '') {''
             else if target = ''java'' then indent @ ''for (var '' @ var @ '' : '' @ iter @ '') {''
             else if target = ''cpp'' then indent @ ''for (auto '' @ var @ '' : '' @ iter @ '') {''
             else if target = ''go'' then indent @ ''for '' @ var @ '' := range '' @ iter @ '' {''
             else m)
          line
      else line)"

definition assign_re :: re where
  \<comment> \<open>\<^verbatim>\<open>/^(\s*)(\w+)\s*=\s*(.+)$/\<close>\<close>
  "assign_re =
     RSeqs [RBol, RGrp 1 (RStar rs), RGrp 2 (RPlus rw), RStar rs, RChr CHR ''='', RStar rs,
            RGrp 3 (RPlus rdot), REol]"

definition transformVariableDeclaration :: "string \<Rightarrow> string \<Rightarrow> string \<Rightarrow> string" where
  "transformVariableDeclaration line source target =
     replace_first assign_re
       (\<lambda>m g. let indent = grp g 1; name = grp g 2; val = grp g 3 in
          if target = ''python'' then indent @ name @ '' = '' @ val
          else if target \<in> set [''javascript'', ''typescript'', ''java'', ''cpp'', ''csharp'',
                                 ''go'', ''rust'', ''php'']
            then indent @ (if target = ''python'' then [] else ''const '') @ name @ '' = '' @ val
                 @ (if target = ''javascript'' \<or> target = ''typescript'' \<or> target = ''java''
                       \<or> target = ''csharp'' then '';'' else [])
          else m)
       line"

definition word_re :: "string \<Rightarrow> re" where
  \<comment> \<open>\<^verbatim>\<open>/\bw\b/g\<close> for a word \<^verbatim>\<open>w\<close>\<close>
  "word_re w = RSeqs [RWordB, RLit w, RWordB]"

definition transformBooleanConstants :: "string \<Rightarrow> string \<Rightarrow> string \<Rightarrow> string" where
  "transformBooleanConstants line source target =
     (if source = ''python'' then
        replace_all (word_re ''None'') (\<lambda>m g. ''null'')
          (replace_all (word_re ''False'') (\<lambda>m g. ''false'')
            (replace_all (word_re ''True'') (\<lambda>m g. ''true'') line))
      else line)"

definition transformOperators :: "string \<Rightarrow> string \<Rightarrow> string \<Rightarrow> string" where
  "transformOperators line source target =
     (if source = ''python'' \<and> target \<noteq> ''python'' then
        replace_all (word_re ''not'') (\<lambda>m g. ''!'')
          (replace_all (word_re ''or'') (\<lambda>m g. ''||'')
            (replace_all (word_re ''and'') (\<lambda>m g. ''&&'') line))
      else line)"

definition transformStatementEndings :: "string \<Rightarrow> string \<Rightarrow> string \<Rightarrow> string" where
  "transformStatementEndings line source target =
     (let needsSemicolon =
            (target \<in> set [''javascript'', ''typescript'', ''java'', ''cpp'', ''csharp'']);
          pythonStyle = (source = ''python'')
      in if needsSemicolon \<and> pythonStyle \<and> \<not> endsWith (trim line) '';''
            \<and> \<not> endsWith (trim line) ''{'' \<and> \<not> endsWith (trim line) '':''
         then (if trim line \<noteq> [] \<and> \<not> startsWith (trim line) ''//''
                  \<and> \<not> startsWith (trim line) ''#''
               then trimEnd line @ '';'' else line)
         else line)"

text \<open>
  \<^verbatim>\<open>transformLine\<close>: blank and comment lines are returned as they are; any other line
  goes through the ten rules in the order of the source's \<^verbatim>\<open>transformations\<close> array.
  The caller's \<^verbatim>\<open>warnings\<close> array receives a copy of the line's warnings, but the one
  caller passes a fresh array and drops it, so the model returns the record only.
\<close>

definition transformLine :: "string \<Rightarrow> string \<Rightarrow> string \<Rightarrow> nat \<Rightarrow> LineTransformation" where
  "transformLine line source target lineNo =
     (let cnt = trim line in
      if cnt = [] \<or> startsWith cnt ''//'' \<or> startsWith cnt ''#'' \<or> startsWith cnt ''/*''
      then \<lparr> original = line, transformed = line, lwarnings = [], lineNumber = lineNo,
             changeType = Unchanged \<rparr>
      else
        (let t1 = transformFunctionDef line source target;
             (t2, lineWarnings) = transformClassDef t1 source target [];
             t3 = transformImportStatement t2 source target;
             t4 = transformPrintStatement t3 source target;
             t5 = transformConditionals t4 source target;
             t6 = transformLoops t5 source target;
             t7 = transformVariableDeclaration t6 source target;
             t8 = transformBooleanConstants t7 source target;
             t9 = transformOperators t8 source target;
             t10 = transformStatementEndings t9 source target
         in \<lparr> original = line, transformed = t10, lwarnings = lineWarnings,
               lineNumber = lineNo,
               changeType = (if length lineWarnings > 0 then Warning
                             else if t10 \<noteq> line then Changed else Unchanged) \<rparr>))"

section \<open>Post-processing\<close>

text \<open>\<^verbatim>\<open>(processed.match(/{/g) || []).length\<close>: how often a character occurs.\<close>

definition count_char :: "char \<Rightarrow> string \<Rightarrow> nat" where
  "count_char c s = length (filter (\<lambda>x. x = c) s)"

text \<open>
  The loop that removes extra closing braces walks the lines from the last to the first
  and splices out a line whose trimmed text is \<^verbatim>\<open>}\<close>, until \<^verbatim>\<open>closeBraces - openBraces\<close>
  lines are gone. \<^verbatim>\<open>drop_closers n\<close> is that loop on the reversed list, \<^verbatim>\<open>n\<close> the number
  of lines still to remove.
\<close>

fun drop_closers :: "nat \<Rightarrow> string list \<Rightarrow> string list" where
  "drop_closers n [] = []"
| "drop_closers n (l # ls) =
     (if n = 0 then l # ls
      else if trim l = ''}'' then drop_closers (n - 1) ls
      else l # drop_closers n ls)"

text \<open>
  The last step re-indents every line with the counter \<^verbatim>\<open>inBlock\<close>, which the closure
  of \<^verbatim>\<open>map\<close> updates from line to line.
\<close>

fun reindent :: "int \<Rightarrow> string list \<Rightarrow> error + string list" where
  "reindent inBlock [] = Inr []"
| "reindent inBlock (line # others) =
     (let trimmed = trim line in
      if trimmed = [] then
        (case reindent inBlock others of Inl e \<Rightarrow> Inl e | Inr out \<Rightarrow> Inr ([] # out))
      else
        (let inBlock1 =
               (if startsWith trimmed ''}'' \<or> startsWith trimmed ''end''
                then max 0 (inBlock - 1) else inBlock)
         in case repeat ''  '' inBlock1 of
              Inl e \<Rightarrow> Inl e
            | Inr indent \<Rightarrow>
                (case reindent
                        (if endsWith trimmed ''{'' \<or> endsWith trimmed '':'' \<or> trimmed = ''do''
                         then inBlock1 + 1 else inBlock1) others of
                   Inl e \<Rightarrow> Inl e
                 | Inr out \<Rightarrow> Inr ((indent @ trimmed) # out))))"

definition brace_langs :: "string list" where
  "brace_langs = [''javascript'', ''typescript'', ''java'', ''cpp'', ''csharp'', ''go'', ''rust'']"

text \<open>The brace block of \<^verbatim>\<open>postProcessCode\<close>: count, repair, then \<^verbatim>\<open>/\n\s*{/g\<close> to \<^verbatim>\<open>' {'\<close>.\<close>

definition nl_brace_re :: re where
  "nl_brace_re = RSeqs [RChr CHR 0x0A, RStar rs, RChr CHR ''{'']"

definition fix_braces :: "string \<Rightarrow> error + string" where
  "fix_braces src =
     (let openBraces = int (count_char CHR ''{'' src);
          closeBraces = int (count_char CHR ''}'' src)
      in case
           (if openBraces > closeBraces then
              (case repeat ''}'' (openBraces - closeBraces) of
                 Inl e \<Rightarrow> Inl e
               | Inr missing \<Rightarrow> Inr (src @ [CHR 0x0A] @ missing))
            else if closeBraces > openBraces then
              Inr (join_nl (rev (drop_closers (nat (closeBraces - openBraces))
                                   (rev (split_nl src)))))
            else Inr src)
         of Inl e \<Rightarrow> Inl e
          | Inr balanced \<Rightarrow>
              Inr (replace_all nl_brace_re (\<lambda>m g. '' {'') balanced))"

definition semicolon_eol_re :: re where
  \<comment> \<open>\<^verbatim>\<open>/;$/gm\<close>\<close>
  "semicolon_eol_re = RSeq (RChr CHR '';'') REolM"

definition postProcessCode :: "string \<Rightarrow> string \<Rightarrow> error + string" where
  "postProcessCode src targetLang =
     (case (if targetLang \<in> set brace_langs then fix_braces src else Inr src) of
        Inl e \<Rightarrow> Inl e
      | Inr p1 \<Rightarrow>
          (let p2 = (if targetLang = ''python''
                     then join_nl (map (\<lambda>line. if endsWith (trim line) '':''
                                                    \<or> endsWith (trim line) ''{''
                                                 then line else line)
                                    (split_nl (replace_all semicolon_eol_re (\<lambda>m g. []) p1)))
                     else p1);
               p3 = (if targetLang = ''ruby''
                     then replace_all semicolon_eol_re (\<lambda>m g. [])
                            (replace_all (RChr CHR ''}'') (\<lambda>m g. [])
                              (replace_all (RChr CHR ''{'') (\<lambda>m g. []) p2))
                     else p2);
               p4 = (if targetLang = ''go'' \<and> \<not> includes_str p3 ''package ''
                     then ''package main'' @ [CHR 0x0A, CHR 0x0A] @ p3 else p3)
           in case reindent 0 (split_nl p4) of
                Inl e \<Rightarrow> Inl e
              | Inr out \<Rightarrow> Inr (join_nl out)))"

section \<open>The structural summary\<close>

text \<open>
  \<^verbatim>\<open>buildAST\<close> keeps the nodes it creates in two places at once: in the tree it returns
  and on a stack of open nodes, and it appends children to the node on top of the stack.
  The model keeps the nodes in a store, addressed by the order of their creation; the
  list \<^verbatim>\<open>nodes\<close> and the stack hold addresses, and the tree is read off the store at the
  end. A node's \<^verbatim>\<open>lineStart\<close> and \<^verbatim>\<open>lineEnd\<close> are both the index of its line and never
  change, so a stack entry carries that index with the address. The optional field
  \<^verbatim>\<open>name\<close> of a node is never set by \<^verbatim>\<open>buildAST\<close> and is left out.
\<close>

record ASTCell =
  cell_type :: NodeType
  cell_content :: string
  cell_line :: nat
  cell_children :: "nat list"

definition node_type :: "string \<Rightarrow> NodeType" where
  "node_type cnt =
     (if startsWith cnt ''function'' \<or> startsWith cnt ''def'' \<or> startsWith cnt ''fn''
        then TFunction
      else if startsWith cnt ''class'' then TClass
      else if startsWith cnt ''if'' then TIf
      else if startsWith cnt ''for'' \<or> startsWith cnt ''while'' then TFor
      else if startsWith cnt ''import'' then TImport
      else if startsWith cnt ''//'' \<or> startsWith cnt ''#'' then TComment
      else TStatement)"

text \<open>\<^verbatim>\<open>while (stack.length > 0 && stack[stack.length - 1].lineEnd < idx - 1) stack.pop()\<close>\<close>

fun pop_stale :: "nat \<Rightarrow> (nat \<times> nat) list \<Rightarrow> (nat \<times> nat) list" where
  "pop_stale idx [] = []"
| "pop_stale idx ((addr, lend) # below) =
     (if int lend < int idx - 1 then pop_stale idx below else (addr, lend) # below)"

type_synonym ast_state = "ASTCell list \<times> nat list \<times> (nat \<times> nat) list"

definition ast_step :: "ast_state \<Rightarrow> nat \<times> string \<Rightarrow> ast_state" where
  "ast_step st il =
     (case st of (store, nodes, stack) \<Rightarrow>
      case il of (idx, line) \<Rightarrow>
      (let cnt = trim line in
       if cnt = [] then (store, nodes, stack)
       else
         (let ty = node_type cnt;
              addr = length store;
              store1 = store @ [\<lparr> cell_type = ty, cell_content = cnt, cell_line = idx,
                                  cell_children = [] \<rparr>];
              stack1 = pop_stale idx stack;
              (store2, nodes2) =
                (case stack1 of
                   [] \<Rightarrow> (store1, nodes @ [addr])
                 | (parent, _) # _ \<Rightarrow>
                     (store1[parent := (store1 ! parent)
                        \<lparr> cell_children := cell_children (store1 ! parent) @ [addr] \<rparr>], nodes));
              stack2 =
                (if ty = TFunction \<or> ty = TClass \<or> ty = TIf
                    \<or> (ty = TFor \<and> (endsWith cnt ''{'' \<or> endsWith cnt '':''))
                 then (addr, idx) # stack1 else stack1)
          in (store2, nodes2, stack2))))"

text \<open>Reading the trees off the store: a child is always created after its parent.\<close>

fun cell_trees :: "string \<Rightarrow> nat \<Rightarrow> ASTCell list \<Rightarrow> (nat \<times> ASTNode) list" where
  "cell_trees lang addr [] = []"
| "cell_trees lang addr (c # cs) =
     (let later = cell_trees lang (Suc addr) cs
      in (addr, ASTNode (cell_type c) (cell_content c) (cell_line c) (cell_line c)
                  (List.map_filter (map_of later) (cell_children c)) lang) # later)"

definition buildAST :: "string \<Rightarrow> string \<Rightarrow> ASTNode list" where
  "buildAST src lang =
     (case foldl ast_step ([], [], []) (enumerate 0 (split_nl src)) of
        (store, nodes, stack) \<Rightarrow> List.map_filter (map_of (cell_trees lang 0 store)) nodes)"

section \<open>The orchestrator\<close>

text \<open>\<^verbatim>\<open>allWarnings\<close> is a \<^verbatim>\<open>Set\<close>: it keeps the first occurrence of a warning, in order.\<close>

definition set_add :: "string list \<Rightarrow> string \<Rightarrow> string list" where
  "set_add ws w = (if w \<in> set ws then ws else ws @ [w])"

text \<open>
  The state of the line loop of \<^verbatim>\<open>transformCode\<close>: the results so far, the set of
  warnings and the three counters.
\<close>

record LoopState =
  transformedLines :: "LineTransformation list"
  allWarnings :: "string list"
  statsFunc :: nat
  statsClass :: nat
  statsImport :: nat

definition loop_step :: "string \<Rightarrow> string \<Rightarrow> LoopState \<Rightarrow> nat \<times> string \<Rightarrow> LoopState" where
  "loop_step source target st il =
     (case il of (i, line) \<Rightarrow>
      (let result = transformLine line source target i in
       \<lparr> transformedLines = transformedLines st @ [result],
         allWarnings = foldl set_add (allWarnings st) (lwarnings result),
         statsFunc = (if includes_str line ''def '' \<or> includes_str line ''function ''
                      then statsFunc st + 1 else statsFunc st),
         statsClass = (if includes_str line ''class '' then statsClass st + 1 else statsClass st),
         statsImport = (if includes_str line ''import '' then statsImport st + 1
                        else statsImport st) \<rparr>))"

text \<open>
  \<^verbatim>\<open>(sourceLang.toLowerCase() as SupportedLanguage) || 'javascript'\<close>: the empty name
  reads as JavaScript; any other name is taken as it is, registered or not.
\<close>

definition lang_or_default :: "string \<Rightarrow> string" where
  "lang_or_default l = (if toLowerCase l = [] then ''javascript'' else toLowerCase l)"

definition transformCode :: "string \<Rightarrow> string \<Rightarrow> string \<Rightarrow> error + TransformationResult" where
  "transformCode src sourceLang targetLang =
     (let source = lang_or_default sourceLang;
          target = lang_or_default targetLang
      in if source = target then
           Inr \<lparr> code = src,
                 lines = map (\<lambda>(idx, line).
                                \<lparr> original = line, transformed = line, lwarnings = [],
                                  lineNumber = idx, changeType = Unchanged \<rparr>)
                           (enumerate 0 (split_nl src)),
                 warnings = [],
                 errors = [],
                 statistics = \<lparr> functionsDetected = 0, classesDetected = 0,
                                 importsDetected = 0, linesTransformed = 0,
                                 mixedLanguageDetected = False,
                                 normalizationApplied = False \<rparr>,
                 ast = buildAST src source \<rparr>
         else
           (let mixedDetection = detectMixedLanguages src;
                (normalized, normWarnings) = normalizeCode src;
                normApplied = (detected mixedDetection \<or> length normWarnings > 0);
                st = foldl (loop_step source target)
                       \<lparr> transformedLines = [], allWarnings = foldl set_add [] normWarnings,
                         statsFunc = 0, statsClass = 0, statsImport = 0 \<rparr>
                       (enumerate 0 (split_nl normalized));
                finalCode = join_nl (map transformed (transformedLines st))
            in case postProcessCode finalCode target of
                 Inl e \<Rightarrow> Inl e
               | Inr cleanedCode \<Rightarrow>
                   Inr \<lparr> code = cleanedCode,
                         lines = transformedLines st,
                         warnings = allWarnings st,
                         errors = [],
                         statistics =
                           \<lparr> functionsDetected = statsFunc st,
                             classesDetected = statsClass st,
                             importsDetected = statsImport st,
                             linesTransformed =
                               length (filter (\<lambda>l. changeType l \<noteq> Unchanged)
                                         (transformedLines st)),
                             mixedLanguageDetected = detected mixedDetection,
                             normalizationApplied = normApplied \<rparr>,
                         ast = buildAST cleanedCode target \<rparr>))"

section \<open>Single-language detection\<close>

text \<open>
  The third generation's \<^verbatim>\<open>detectLanguage\<close> lower-cases the text and adds to a score per
  language; the scores are the only place where the source names an indicator for each
  of the ten languages. \<^verbatim>\<open>bump\<close> is \<^verbatim>\<open>scores[k] = (scores[k] || 0) + n\<close>.
\<close>

definition bump :: "string \<Rightarrow> int \<Rightarrow> indicators \<Rightarrow> indicators" where
  "bump k n m = put k (get0 m k + n) m"

definition bump_if :: "bool \<Rightarrow> string \<Rightarrow> int \<Rightarrow> indicators \<Rightarrow> indicators" where
  "bump_if b k n m = (if b then bump k n m else m)"

definition detectLanguage_scores :: "string \<Rightarrow> indicators" where
  "detectLanguage_scores src0 =
     (let src = toLowerCase src0;
          ls = split_nl src;
          s1 = bump_if (includes_str src ''def '') ''python'' 3 [];
          s2 = bump_if (includes_str src ''import '' \<or> includes_str src ''from '') ''python'' 2 s1;
          s3 = bump_if (includes_str src ''print('') ''python'' 2 s2;
          s4 = bump_if (list_ex (re_test (RSeqs [RBol, rs, rs, RStar rs,
                                                 RSet [CRange CHR ''a'' CHR ''z'']])) ls)
                 ''python'' 1 s3;
          s5 = bump_if (includes_str src ''function '' \<or> includes_str src ''const ''
                          \<or> includes_str src ''let '') ''javascript'' 3 s4;
          s6 = bump_if (includes_str src ''console.log'') ''javascript'' 2 s5;
          s7 = bump_if (includes_str src '': string'' \<or> includes_str src '': number''
                          \<or> includes_str src ''interface '') ''typescript'' 3 s6;
          s8 = bump_if (includes_str src ''public class'' \<or> includes_str src ''public static'')
                 ''java'' 3 s7;
          s9 = bump_if (includes_str src ''#include'' \<or> includes_str src ''std::'') ''cpp'' 3 s8;
          s10 = bump_if (includes_str src ''package '' \<and> includes_str src ''func '') ''go'' 3 s9;
          s11 = bump_if (includes_str src ''fn '' \<and> includes_str src ''let '') ''rust'' 3 s10;
          s12 = bump_if (includes_str src ''using '' \<and> includes_str src ''namespace '')
                  ''csharp'' 3 s11;
          s13 = bump_if (includes_str src ''<?php'' \<or> includes_str src ''$'') ''php'' 3 s12;
          s14 = bump_if (includes_str src ''def '' \<and> includes_str src ''end'') ''ruby'' 2 s13
      in s14)"

definition detectLanguage :: "string \<Rightarrow> string" where
  "detectLanguage src =
     (case sort_key (\<lambda>(l, c). - c) (detectLanguage_scores src) of
        [] \<Rightarrow> ''javascript''
      | (l, c) # _ \<Rightarrow> if l = [] then ''javascript'' else l)"

section \<open>The first generation: rule tables and the fallback comment\<close>

text \<open>
  The first \<^verbatim>\<open>transformCode\<close> of the file returns a string. It looks the rule list up in
  \<^verbatim>\<open>transformationMap[source]?.[target]\<close> and, when there is none, returns the text under
  two comment lines. A rule is a pattern (all carry the \<^verbatim>\<open>g\<close> flag) and a replacer.
\<close>

type_synonym rule = "re \<times> (string \<Rightarrow> groups \<Rightarrow> string)"

definition v1_call :: "string \<Rightarrow> re" where
  \<comment> \<open>\<^verbatim>\<open>/name\s*\((.*?)\)/\<close>\<close>
  "v1_call name = RSeqs [RLit name, RStar rs, RChr CHR ''('', RGrp 1 (RStarLazy rdot), RChr CHR '')'']"

definition v1_py_def :: re where
  \<comment> \<open>\<^verbatim>\<open>/^(\s*)def\s+(\w+)\s*\((.*?)\):/gm\<close>\<close>
  "v1_py_def =
     RSeqs [RBolM, RGrp 1 (RStar rs), RLit ''def'', RPlus rs, RGrp 2 (RPlus rw), RStar rs,
            RChr CHR ''('', RGrp 3 (RStarLazy rdot), RLit ''):'']"

definition v1_py_class :: re where
  \<comment> \<open>\<^verbatim>\<open>/^(\s*)class\s+(\w+)(\(.*?\))?:/gm\<close>\<close>
  "v1_py_class =
     RSeqs [RBolM, RGrp 1 (RStar rs), RLit ''class'', RPlus rs, RGrp 2 (RPlus rw),
            ROpt (RGrp 3 (RSeqs [RChr CHR ''('', RStarLazy rdot, RChr CHR '')''])),
            RChr CHR '':'']"

definition v1_py_head :: "string \<Rightarrow> re" where
  \<comment> \<open>\<^verbatim>\<open>/^(\s*)kw\s+(.*?):/gm\<close> for \<^verbatim>\<open>if\<close>, \<^verbatim>\<open>elif\<close> and \<^verbatim>\<open>while\<close>\<close>
  "v1_py_head kw =
     RSeqs [RBolM, RGrp 1 (RStar rs), RLit kw, RPlus rs, RGrp 2 (RStarLazy rdot), RChr CHR '':'']"

definition v1_py_for :: re where
  \<comment> \<open>\<^verbatim>\<open>/^(\s*)for\s+(\w+)\s+in\s+(.*?):/gm\<close>\<close>
  "v1_py_for =
     RSeqs [RBolM, RGrp 1 (RStar rs), RLit ''for'', RPlus rs, RGrp 2 (RPlus rw), RPlus rs,
            RLit ''in'', RPlus rs, RGrp 3 (RStarLazy rdot), RChr CHR '':'']"

definition PYTHON_TO_OTHER :: "string \<Rightarrow> rule list option" where
  "PYTHON_TO_OTHER t =
     (if t = ''javascript'' then Some
        [(v1_py_def, \<lambda>m g. grp g 1 @ ''function '' @ grp g 2 @ ''('' @ grp g 3 @ '') {''),
         (v1_py_class, \<lambda>m g. grp g 1 @ ''class '' @ grp g 2 @ '' {''),
         (v1_py_head ''if'', \<lambda>m g. grp g 1 @ ''if ('' @ grp g 2 @ '') {''),
         (v1_py_head ''elif'', \<lambda>m g. grp g 1 @ ''} else if ('' @ grp g 2 @ '') {''),
         (RSeqs [RBolM, RGrp 1 (RStar rs), RLit ''else:''], \<lambda>m g. grp g 1 @ ''} else {''),
         (v1_py_for, \<lambda>m g. grp g 1 @ ''for (let '' @ grp g 2 @ '' of '' @ grp g 3 @ '') {''),
         (v1_py_head ''while'', \<lambda>m g. grp g 1 @ ''while ('' @ grp g 2 @ '') {''),
         (RSeqs [RBolM, RGrp 1 (RStar rs), RGrp 2 (RStarLazy rdot), RChr CHR ''=''],
            \<lambda>m g. grp g 1 @ grp g 2 @ '';''),
         (v1_call ''print'', \<lambda>m g. ''console.log('' @ grp g 1 @ '')''),
         (RSeqs [RLit ''import'', RPlus rs, RGrp 1 (RPlus rw)], \<lambda>m g. ''import '' @ grp g 1),
         (RSeqs [RLit ''from'', RPlus rs, RGrp 1 (RPlus rw), RPlus rs, RLit ''import'', RPlus rs,
                 RGrp 2 (RStar rdot)],
            \<lambda>m g. ''import { '' @ grp g 2 @ '' } from '' @ [CHR 0x27] @ grp g 1 @ [CHR 0x27]),
         (RLit ''True'', \<lambda>m g. ''true''),
         (RLit ''False'', \<lambda>m g. ''false''),
         (RLit ''None'', \<lambda>m g. ''null''),
         (RSeq (RLit ''and'') (RPlus rs), \<lambda>m g. '' && ''),
         (RSeq (RLit ''or'') (RPlus rs), \<lambda>m g. '' || ''),
         (RSeq (RLit ''not'') (RPlus rs), \<lambda>m g. ''!''),
         (RSeqs [RLit ''len'', RStar rs, RChr CHR ''(''], \<lambda>m g. ''.length''),
         (RSeqs [RChr CHR ''['', RStar rs, RChr CHR '':'', RStar rs, ROpt (RChr CHR ''-''),
                 RChr CHR ''1'', RStar rs, RChr CHR '']''], \<lambda>m g. ''.reverse()'')]
      else if t = ''java'' then Some
        [(v1_py_def,
            \<lambda>m g. grp g 1 @ ''public static Object '' @ grp g 2 @ ''('' @ grp g 3 @ '') {''),
         (v1_py_class, \<lambda>m g. grp g 1 @ ''public class '' @ grp g 2 @ '' {''),
         (v1_py_head ''if'', \<lambda>m g. grp g 1 @ ''if ('' @ grp g 2 @ '') {''),
         (v1_py_for, \<lambda>m g. grp g 1 @ ''for (Object '' @ grp g 2 @ '' : '' @ grp g 3 @ '') {''),
         (v1_call ''print'', \<lambda>m g. ''System.out.println('' @ grp g 1 @ '')''),
         (RLit ''True'', \<lambda>m g. ''true''),
         (RLit ''False'', \<lambda>m g. ''false''),
         (RLit ''None'', \<lambda>m g. ''null'')]
      else if t = ''cpp'' then Some
        [(v1_py_def, \<lambda>m g. grp g 1 @ ''void '' @ grp g 2 @ ''('' @ grp g 3 @ '') {''),
         (v1_py_class, \<lambda>m g. grp g 1 @ ''class '' @ grp g 2 @ '' {''),
         (v1_call ''print'', \<lambda>m g. ''std::cout << '' @ grp g 1 @ '' << std::endl''),
         (RLit ''True'', \<lambda>m g. ''true''),
         (RLit ''False'', \<lambda>m g. ''false'')]
      else None)"

definition v1_block :: "re list \<Rightarrow> re" where
  \<comment> \<open>\<^verbatim>\<open>/head\s*\((.*?)\)\s*\{/\<close>\<close>
  "v1_block kw =
     RSeqs (kw @ [RStar rs, RChr CHR ''('', RGrp 1 (RStarLazy rdot), RChr CHR '')'', RStar rs,
                  RChr CHR ''{''])"

definition v1_js_function :: re where
  \<comment> \<open>\<^verbatim>\<open>/function\s+(\w+)\s*\((.*?)\)\s*\{/gm\<close>\<close>
  "v1_js_function =
     RSeqs [RLit ''function'', RPlus rs, RGrp 1 (RPlus rw), RStar rs, RChr CHR ''('',
            RGrp 2 (RStarLazy rdot), RChr CHR '')'', RStar rs, RChr CHR ''{'']"

definition v1_js_const :: re where
  \<comment> \<open>\<^verbatim>\<open>/const\s+(\w+)\s*=/g\<close>\<close>
  "v1_js_const = RSeqs [RLit ''const'', RPlus rs, RGrp 1 (RPlus rw), RStar rs, RChr CHR ''='']"

definition v1_quote :: re where
  \<comment> \<open>\<^verbatim>\<open>['"]\<close>\<close>
  "v1_quote = RSet [CChar CHR 0x27, CChar CHR 0x22]"

definition JAVASCRIPT_TO_OTHER :: "string \<Rightarrow> rule list option" where
  "JAVASCRIPT_TO_OTHER t =
     (if t = ''python'' then Some
        [(v1_js_function, \<lambda>m g. ''def '' @ grp g 1 @ ''('' @ grp g 2 @ ''):''),
         (v1_js_const, \<lambda>m g. grp g 1 @ '' =''),
         (RSeqs [RLit ''let'', RPlus rs, RGrp 1 (RPlus rw), RStar rs, RChr CHR ''=''],
            \<lambda>m g. grp g 1 @ '' =''),
         (v1_block [RLit ''if''], \<lambda>m g. ''if '' @ grp g 1 @ '':''),
         (v1_block [RLit ''else'', RStar rs, RLit ''if''], \<lambda>m g. ''elif '' @ grp g 1 @ '':''),
         (RSeqs [RLit ''else'', RStar rs, RChr CHR ''{''], \<lambda>m g. ''else:''),
         (RSeqs [RLit ''for'', RStar rs, RChr CHR ''('', RStar rs, RLit ''let'', RPlus rs,
                 RGrp 1 (RPlus rw), RPlus rs, RLit ''of'', RPlus rs, RGrp 2 (RStarLazy rdot),
                 RChr CHR '')'', RStar rs, RChr CHR ''{''],
            \<lambda>m g. ''for '' @ grp g 1 @ '' in '' @ grp g 2 @ '':''),
         (v1_block [RLit ''while''], \<lambda>m g. ''while '' @ grp g 1 @ '':''),
         (v1_call ''console.log'', \<lambda>m g. ''print('' @ grp g 1 @ '')''),
         (RSeqs [RLit ''import'', RPlus rs, RChr CHR ''{'', RStar rs, RGrp 1 (RStarLazy rdot),
                 RStar rs, RChr CHR ''}'', RPlus rs, RLit ''from'', RPlus rs, v1_quote,
                 RGrp 2 (RPlus (RNotSet [CChar CHR 0x27, CChar CHR 0x22])), v1_quote],
            \<lambda>m g. ''from '' @ grp g 2 @ '' import '' @ grp g 1),
         (RSeqs [RLit ''import'', RPlus rs, RGrp 1 (RPlus rw), RPlus rs, RLit ''from'', RPlus rs,
                 v1_quote, RGrp 2 (RPlus (RNotSet [CChar CHR 0x27, CChar CHR 0x22])), v1_quote],
            \<lambda>m g. ''import '' @ grp g 1),
         (RSeqs [RChr CHR ''}'', RStar rs, RAhead (RAlt (RChr CHR 0x0A) REolM)], \<lambda>m g. []),
         (RLit ''true'', \<lambda>m g. ''True''),
         (RLit ''false'', \<lambda>m g. ''False''),
         (RLit ''null'', \<lambda>m g. ''None''),
         (RLit ''&&'', \<lambda>m g. ''and''),
         (RLit ''||'', \<lambda>m g. ''or''),
         (RLit ''!'', \<lambda>m g. ''not ''),
         (RLit ''.length'', \<lambda>m g. '' len()'')]
      else if t = ''java'' then Some
        [(v1_js_function,
            \<lambda>m g. ''public static Object '' @ grp g 1 @ ''('' @ grp g 2 @ '') {''),
         (v1_js_const, \<lambda>m g. ''Object '' @ grp g 1 @ '' =''),
         (v1_call ''console.log'', \<lambda>m g. ''System.out.println('' @ grp g 1 @ '')''),
         (RLit ''true'', \<lambda>m g. ''true''),
         (RLit ''false'', \<lambda>m g. ''false'')]
      else if t = ''cpp'' then Some
        [(v1_js_function, \<lambda>m g. ''void '' @ grp g 1 @ ''('' @ grp g 2 @ '') {''),
         (v1_js_const, \<lambda>m g. ''auto '' @ grp g 1 @ '' =''),
         (v1_call ''console.log'', \<lambda>m g. ''std::cout << '' @ grp g 1 @ '' << std::endl;'')]
      else None)"

definition v1_java_method :: re where
  \<comment> \<open>\<^verbatim>\<open>/public\s+static\s+\w+\s+(\w+)\s*\((.*?)\)\s*\{/gm\<close>\<close>
  "v1_java_method =
     RSeqs [RLit ''public'', RPlus rs, RLit ''static'', RPlus rs, RPlus rw, RPlus rs,
            RGrp 1 (RPlus rw), RStar rs, RChr CHR ''('', RGrp 2 (RStarLazy rdot), RChr CHR '')'',
            RStar rs, RChr CHR ''{'']"

definition v1_java_for :: re where
  \<comment> \<open>\<^verbatim>\<open>/for\s*\(\s*\w+\s+(\w+)\s*:\s*(.*?)\)\s*\{/gm\<close>\<close>
  "v1_java_for =
     RSeqs [RLit ''for'', RStar rs, RChr CHR ''('', RStar rs, RPlus rw, RPlus rs,
            RGrp 1 (RPlus rw), RStar rs, RChr CHR '':'', RStar rs, RGrp 2 (RStarLazy rdot),
            RChr CHR '')'', RStar rs, RChr CHR ''{'']"

definition JAVA_TO_OTHER :: "string \<Rightarrow> rule list option" where
  "JAVA_TO_OTHER t =
     (if t = ''python'' then Some
        [(v1_java_method, \<lambda>m g. ''def '' @ grp g 1 @ ''('' @ grp g 2 @ ''):''),
         (v1_block [RLit ''if''], \<lambda>m g. ''if '' @ grp g 1 @ '':''),
         (v1_java_for, \<lambda>m g. ''for '' @ grp g 1 @ '' in '' @ grp g 2 @ '':''),
         (v1_call ''System.out.println'', \<lambda>m g. ''print('' @ grp g 1 @ '')''),
         (RLit ''true'', \<lambda>m g. ''True''),
         (RLit ''false'', \<lambda>m g. ''False''),
         (RLit ''null'', \<lambda>m g. ''None'')]
      else if t = ''javascript'' then Some
        [(v1_java_method, \<lambda>m g. ''function '' @ grp g 1 @ ''('' @ grp g 2 @ '') {''),
         (v1_block [RLit ''if''], \<lambda>m g. ''if ('' @ grp g 1 @ '') {''),
         (v1_java_for, \<lambda>m g. ''for (let '' @ grp g 1 @ '' of '' @ grp g 2 @ '') {''),
         (v1_call ''System.out.println'', \<lambda>m g. ''console.log('' @ grp g 1 @ '')'')]
      else None)"

definition v1_cpp_void :: re where
  \<comment> \<open>\<^verbatim>\<open>/void\s+(\w+)\s*\((.*?)\)\s*\{/gm\<close>\<close>
  "v1_cpp_void =
     RSeqs [RLit ''void'', RPlus rs, RGrp 1 (RPlus rw), RStar rs, RChr CHR ''('',
            RGrp 2 (RStarLazy rdot), RChr CHR '')'', RStar rs, RChr CHR ''{'']"

definition v1_cpp_cout :: re where
  \<comment> \<open>\<^verbatim>\<open>/std::cout\s*<<\s*(.*?)\s*<<\s*std::endl;?/g\<close>\<close>
  "v1_cpp_cout =
     RSeqs [RLit ''std::cout'', RStar rs, RLit ''<<'', RStar rs, RGrp 1 (RStarLazy rdot),
            RStar rs, RLit ''<<'', RStar rs, RLit ''std::endl'', ROpt (RChr CHR '';'')]"

definition CPP_TO_OTHER :: "string \<Rightarrow> rule list option" where
  "CPP_TO_OTHER t =
     (if t = ''python'' then Some
        [(v1_cpp_void, \<lambda>m g. ''def '' @ grp g 1 @ ''('' @ grp g 2 @ ''):''),
         (v1_cpp_cout, \<lambda>m g. ''print('' @ grp g 1 @ '')''),
         (v1_block [RLit ''if''], \<lambda>m g. ''if '' @ grp g 1 @ '':'')]
      else if t = ''javascript'' then Some
        [(v1_cpp_void, \<lambda>m g. ''function '' @ grp g 1 @ ''('' @ grp g 2 @ '') {''),
         (v1_cpp_cout, \<lambda>m g. ''console.log('' @ grp g 1 @ '')'')]
      else None)"

definition transformationMap :: "string \<Rightarrow> (string \<Rightarrow> rule list option) option" where
  "transformationMap s =
     (if s = ''python'' then Some PYTHON_TO_OTHER
      else if s = ''javascript'' \<or> s = ''typescript'' then Some JAVASCRIPT_TO_OTHER
      else if s = ''java'' then Some JAVA_TO_OTHER
      else if s = ''cpp'' \<or> s = ''c++'' then Some CPP_TO_OTHER
      else None)"

text \<open>
  The tables are object literals, so \<^verbatim>\<open>transformationMap[source]?.[target]\<close> also finds
  properties inherited from the host objects. Both names are lower-cased before the
  lookup; the lower-case property names of the host objects (ECMAScript 2024) are:
  \<^item> on a table (through \<^verbatim>\<open>Object.prototype\<close>): \<^verbatim>\<open>constructor\<close>, the function \<^verbatim>\<open>Object\<close>, and
    \<^verbatim>\<open>__proto__\<close>, the object \<^verbatim>\<open>Object.prototype\<close>;
  \<^item> on \<^verbatim>\<open>Object.prototype\<close> itself: \<^verbatim>\<open>constructor\<close>, and \<^verbatim>\<open>__proto__\<close>, which is \<^verbatim>\<open>null\<close>;
  \<^item> on the function \<^verbatim>\<open>Object\<close>: \<^verbatim>\<open>name\<close>, the string \<^verbatim>\<open>Object\<close>; the number \<^verbatim>\<open>length\<close>; the
    object \<^verbatim>\<open>prototype\<close>; the functions \<^verbatim>\<open>assign\<close>, \<^verbatim>\<open>create\<close>, \<^verbatim>\<open>entries\<close>, \<^verbatim>\<open>freeze\<close>, \<^verbatim>\<open>is\<close>,
    \<^verbatim>\<open>keys\<close>, \<^verbatim>\<open>seal\<close>, \<^verbatim>\<open>values\<close>, \<^verbatim>\<open>apply\<close>, \<^verbatim>\<open>bind\<close>, \<^verbatim>\<open>call\<close>, \<^verbatim>\<open>constructor\<close> and
    \<^verbatim>\<open>__proto__\<close>; and \<^verbatim>\<open>caller\<close> and \<^verbatim>\<open>arguments\<close>, whose getter throws a TypeError.
  A value that is \<^verbatim>\<open>undefined\<close> or \<^verbatim>\<open>null\<close> takes the fallback branch. A value that is
  truthy but not iterable (a function, an object, the number 1) makes \<^verbatim>\<open>for ... of\<close>
  throw a TypeError. The string \<^verbatim>\<open>Object\<close> is iterable: the loop runs once per character
  \<^verbatim>\<open>c\<close> with \<^verbatim>\<open>c.pattern\<close> and \<^verbatim>\<open>c.replacement\<close> undefined, so each round replaces the first
  occurrence of the text \<^verbatim>\<open>undefined\<close> by the text \<^verbatim>\<open>undefined\<close>.
\<close>

datatype lookup = Rules "rule list" | Undefined | NotIterable | Chars string

definition object_function_property :: "string \<Rightarrow> lookup" where
  \<comment> \<open>\<^verbatim>\<open>Object[t]\<close> for a lower-case name \<^verbatim>\<open>t\<close>\<close>
  "object_function_property t =
     (if t = ''name'' then Chars ''Object''
      else if t \<in> set [''length'', ''prototype'', ''assign'', ''create'', ''entries'', ''freeze'',
                        ''is'', ''keys'', ''seal'', ''values'', ''apply'', ''bind'', ''call'',
                        ''constructor'', ''__proto__'', ''caller'', ''arguments'']
        then NotIterable
      else Undefined)"

definition rules_for :: "string \<Rightarrow> string \<Rightarrow> lookup" where
  "rules_for s t =
     (case transformationMap s of
        Some table \<Rightarrow>
          (case table t of
             Some rules \<Rightarrow> Rules rules
           | None \<Rightarrow> if t = ''constructor'' \<or> t = ''__proto__'' then NotIterable else Undefined)
      | None \<Rightarrow>
          if s = ''constructor'' then object_function_property t
          else if s = ''__proto__'' then (if t = ''constructor'' then NotIterable else Undefined)
          else Undefined)"

datatype v1_error = TypeError

definition fallback_comment :: "string \<Rightarrow> string \<Rightarrow> string" where
  "fallback_comment sourceLanguage targetLanguage =
     ''// Translation from '' @ sourceLanguage @ '' to '' @ targetLanguage
       @ '' not fully supported yet'' @ [CHR 0x0A]
       @ ''// Please manually review the converted code'' @ [CHR 0x0A, CHR 0x0A]"

definition transformCode_v1 :: "string \<Rightarrow> string \<Rightarrow> string \<Rightarrow> v1_error + string" where
  "transformCode_v1 sourceCode sourceLanguage targetLanguage =
     (let source = toLowerCase sourceLanguage;
          target = toLowerCase targetLanguage
      in if source = target then Inr sourceCode
         else case rules_for source target of
                Undefined \<Rightarrow> Inr (fallback_comment sourceLanguage targetLanguage @ sourceCode)
              | NotIterable \<Rightarrow> Inl TypeError
              | Rules rules \<Rightarrow>
                  Inr (join_nl (map trimEnd (split_nl
                         (foldl (\<lambda>t (pat, rep). replace_all pat rep t) sourceCode rules))))
              | Chars cs \<Rightarrow>
                  Inr (join_nl (map trimEnd (split_nl
                         (foldl (\<lambda>t c. replace_first (RLit ''undefined'') (\<lambda>m g. ''undefined'') t)
                            sourceCode cs)))))"

section \<open>Line changes for the diff view\<close>

text \<open>
  \<^verbatim>\<open>calculateLineChanges\<close> maps over the lines of the source text. \<^verbatim>\<open>translatedLines[i]\<close>
  is \<^verbatim>\<open>undefined\<close> past the end of the translated text; an empty or undefined line is
  falsy.
\<close>

record LineChange =
  ctype :: ChangeType
  source :: string
  translated :: string

definition calculateLineChanges :: "string \<Rightarrow> string \<Rightarrow> LineChange list" where
  "calculateLineChanges sourceCode translatedCode =
     (let sourceLines = split_nl sourceCode;
          translatedLines = split_nl translatedCode
      in map (\<lambda>(i, src).
                let t = (if i < length translatedLines then Some (translatedLines ! i) else None);
                    truthy = (case t of None \<Rightarrow> False | Some x \<Rightarrow> x \<noteq> [])
                in \<lparr> ctype = (if src = [] \<and> truthy then Added
                               else if src \<noteq> [] \<and> \<not> truthy then Removed
                               else if t = Some src then Unchanged
                               else Changed),
                     source = src,
                     translated = (case t of None \<Rightarrow> [] | Some x \<Rightarrow> x) \<rparr>)
           (enumerate 0 sourceLines))"

section \<open>Notions used in the statements\<close>

text \<open>
  \<^verbatim>\<open>rewrittenCode\<close> is the text \<^verbatim>\<open>transformCode\<close> hands to \<^verbatim>\<open>postProcessCode\<close> when the two
  languages differ (\<^verbatim>\<open>finalCode\<close> in the source): the normalised lines after the ten
  rules, joined again.
\<close>

definition rewrittenCode :: "string \<Rightarrow> string \<Rightarrow> string \<Rightarrow> string" where
  "rewrittenCode src sourceLang targetLang =
     (let (normalized, normWarnings) = normalizeCode src;
          st = foldl (loop_step (lang_or_default sourceLang) (lang_or_default targetLang))
                 \<lparr> transformedLines = [], allWarnings = foldl set_add [] normWarnings,
                   statsFunc = 0, statsClass = 0, statsImport = 0 \<rparr>
                 (enumerate 0 (split_nl normalized))
      in join_nl (map transformed (transformedLines st)))"

text \<open>The score of a language in \<^verbatim>\<open>detectMixedLanguages\<close>: how many of its patterns match.\<close>

definition hits :: "re list \<Rightarrow> string \<Rightarrow> nat" where
  "hits ps src = length (filter (\<lambda>p. re_test p src) ps)"

section \<open>Reading a result\<close>

text \<open>
  \<^verbatim>\<open>transformCode\<close> returns a result or raises. \<^verbatim>\<open>code_of\<close>, \<^verbatim>\<open>warnings_of\<close> and
  \<^verbatim>\<open>errors_of\<close> read a field of the result; they are \<^verbatim>\<open>None\<close> when the call raised.
\<close>

definition code_of :: "error + TransformationResult \<Rightarrow> string option" where
  "code_of x = (case x of Inl e \<Rightarrow> None | Inr r \<Rightarrow> Some (code r))"

definition warnings_of :: "error + TransformationResult \<Rightarrow> string list option" where
  "warnings_of x = (case x of Inl e \<Rightarrow> None | Inr r \<Rightarrow> Some (warnings r))"


section \<open>The engine's limit on the length of a string\<close>

text \<open>
  An engine refuses to build a string longer than its maximum length and raises
  \<^verbatim>\<open>RangeError: Invalid string length\<close> instead; V8, the engine of Node.js, allows
  \<^verbatim>\<open>2^29 - 24\<close> code units on a 64-bit platform. \<^verbatim>\<open>transformCode\<close> has no \<^verbatim>\<open>try\<close>, so such
  an error leaves it. The functions above compute on unbounded lists; the definitions
  of this section list, in the order of the source, every string the pipeline builds:
  the result of each \<^verbatim>\<open>replace\<close>, \<^verbatim>\<open>join\<close>, \<^verbatim>\<open>repeat\<close>, concatenation and template literal
  that a statement of the source assigns or returns. A string that is a part of a
  listed one, or no longer than one, is not listed again: what a replacer function
  returns is a part of the result of its \<^verbatim>\<open>replace\<close>; the condition that the replacer of
  \<^verbatim>\<open>transformConditionals\<close> strips of its colon is no longer than the line; what \<^verbatim>\<open>repeat\<close>
  returns is a part of the text it is appended to; \<^verbatim>\<open>split\<close>, \<^verbatim>\<open>match\<close>, \<^verbatim>\<open>trim\<close>,
  \<^verbatim>\<open>trimEnd\<close> and \<^verbatim>\<open>toLowerCase\<close> return texts no longer than their argument. A rule that
  does not apply returns the line it was given; the line is listed all the same. Of
  the engine's limits this is the only one in the model: the memory and the stack of
  the regular-expression matcher are outside it.
\<close>

text \<open>\<^verbatim>\<open>preprocessCode\<close>: the five values of \<^verbatim>\<open>processed\<close>.\<close>

definition preprocess_built :: "string \<Rightarrow> string list" where
  "preprocess_built src =
     (let p1 = replace_all (RLit [CHR 0x0D, CHR 0x0A]) (\<lambda>m g. [CHR 0x0A]) src;
          p2 = join_nl (map trimEnd (split_nl p1));
          p3 = replace_all (RSeqs [RGrp 1 rw, RPlus rs, RChr CHR ''{''])
                 (\<lambda>m g. grp g 1 @ '' {'') p2;
          p4 = replace_all (RSeqs [RChr CHR '','', RPlus rs]) (\<lambda>m g. '', '') p3;
          p5 = replace_all (RSeqs [RPlus rs, RChr CHR '';'']) (\<lambda>m g. '';'') p4
      in [p1, p2, p3, p4, p5])"

text \<open>
  \<^verbatim>\<open>normalizeCode\<close>: what \<^verbatim>\<open>preprocessCode\<close> builds, the warning (a template literal),
  the values of \<^verbatim>\<open>normalized\<close>, and the lines after the quote step.
\<close>

definition normalize_built :: "string \<Rightarrow> string list" where
  "normalize_built src =
     (let (preprocessed, prepWarnings) = preprocessCode src;
          (normalized, normWarnings) = normalizeCode src;
          n1 = replace_all (RSeqs [RBolM, RStar rs, RLit ''elif'', RPlus rs])
                 (\<lambda>m g. ''else if '') preprocessed;
          n2 = replace_all colon_re colon_fix n1;
          n3 = replace_all brace_re brace_fix n2;
          quoted = map fix_quotes (split_nl n3);
          n4 = join_nl quoted;
          n5 = replace_all (RSeq (RChr CHR '';'') (RPlus (RChr CHR '';''))) (\<lambda>m g. '';'') n4;
          n6 = replace_all (RLit ''||'') (\<lambda>m g. ''or'') n5;
          n7 = replace_all (RLit ''&&'') (\<lambda>m g. ''and'') n6
      in preprocess_built src @ normWarnings @ [n1, n2, n3] @ quoted @ [n4, n5, n6, n7])"

text \<open>
  \<^verbatim>\<open>transformLine\<close> on a line that is neither blank nor a comment: the value of
  \<^verbatim>\<open>transformed\<close> after each of the ten rules, and the two values between the three
  \<^verbatim>\<open>replace\<close> calls of \<^verbatim>\<open>transformBooleanConstants\<close> and of \<^verbatim>\<open>transformOperators\<close>.
\<close>

definition line_built :: "string \<Rightarrow> string \<Rightarrow> string \<Rightarrow> string list" where
  "line_built line sourceLang targetLang =
     (let cnt = trim line in
      if cnt = [] \<or> startsWith cnt ''//'' \<or> startsWith cnt ''#'' \<or> startsWith cnt ''/*''
      then []
      else
        (let t1 = transformFunctionDef line sourceLang targetLang;
             (t2, lineWarnings) = transformClassDef t1 sourceLang targetLang [];
             t3 = transformImportStatement t2 sourceLang targetLang;
             t4 = transformPrintStatement t3 sourceLang targetLang;
             t5 = transformConditionals t4 sourceLang targetLang;
             t6 = transformLoops t5 sourceLang targetLang;
             t7 = transformVariableDeclaration t6 sourceLang targetLang;
             b1 = replace_all (word_re ''True'') (\<lambda>m g. ''true'') t7;
             b2 = replace_all (word_re ''False'') (\<lambda>m g. ''false'') b1;
             t8 = transformBooleanConstants t7 sourceLang targetLang;
             o1 = replace_all (word_re ''and'') (\<lambda>m g. ''&&'') t8;
             o2 = replace_all (word_re ''or'') (\<lambda>m g. ''||'') o1;
             t9 = transformOperators t8 sourceLang targetLang;
             t10 = transformStatementEndings t9 sourceLang targetLang
         in [t1, t2, t3, t4, t5, t6, t7]
            @ (if sourceLang = ''python'' then [b1, b2] else []) @ [t8]
            @ (if sourceLang = ''python'' \<and> targetLang \<noteq> ''python'' then [o1, o2] else [])
            @ [t9, t10]))"

text \<open>
  \<^verbatim>\<open>postProcessCode\<close>: in the brace block the text with the missing closers appended,
  or the lines joined again after the removal, and then the result of the \<^verbatim>\<open>replace\<close>;
  the values of \<^verbatim>\<open>processed\<close> in the Python, Ruby and Go blocks; the re-indented lines
  and the text joined from them.
\<close>

definition postProcess_built :: "string \<Rightarrow> string \<Rightarrow> string list" where
  "postProcess_built src targetLang =
     (let openBraces = int (count_char CHR ''{'' src);
          closeBraces = int (count_char CHR ''}'' src);
          balanced =
            (if openBraces > closeBraces then
               (case repeat ''}'' (openBraces - closeBraces) of
                  Inl e \<Rightarrow> []
                | Inr missing \<Rightarrow> [src @ [CHR 0x0A] @ missing])
             else if closeBraces > openBraces then
               [join_nl (rev (drop_closers (nat (closeBraces - openBraces))
                                (rev (split_nl src))))]
             else [])
      in case (if targetLang \<in> set brace_langs then fix_braces src else Inr src) of
           Inl e \<Rightarrow> (if targetLang \<in> set brace_langs then balanced else [])
         | Inr p1 \<Rightarrow>
             (let s1 = replace_all semicolon_eol_re (\<lambda>m g. []) p1;
                  p2 = (if targetLang = ''python'' then join_nl (split_nl s1) else p1);
                  r1 = replace_all (RChr CHR ''{'') (\<lambda>m g. []) p2;
                  r2 = replace_all (RChr CHR ''}'') (\<lambda>m g. []) r1;
                  r3 = replace_all semicolon_eol_re (\<lambda>m g. []) r2;
                  p3 = (if targetLang = ''ruby'' then r3 else p2);
                  p4 = (if targetLang = ''go'' \<and> \<not> includes_str p3 ''package ''
                        then ''package main'' @ [CHR 0x0A, CHR 0x0A] @ p3 else p3)
              in (if targetLang \<in> set brace_langs then balanced @ [p1] else [])
                 @ (if targetLang = ''python'' then [s1, p2] else [])
                 @ (if targetLang = ''ruby'' then [r1, r2, r3] else [])
                 @ (if targetLang = ''go'' \<and> \<not> includes_str p3 ''package '' then [p4] else [])
                 @ (case reindent 0 (split_nl p4) of
                      Inl e \<Rightarrow> []
                    | Inr out \<Rightarrow> out @ [join_nl out])))"

text \<open>
  \<^verbatim>\<open>transformCode\<close>: nothing on the identity branch, which hands the text on as it is;
  otherwise what \<^verbatim>\<open>normalizeCode\<close> builds, what \<^verbatim>\<open>transformLine\<close> builds for each line,
  \<^verbatim>\<open>finalCode\<close>, and what \<^verbatim>\<open>postProcessCode\<close> builds.
\<close>

definition built_strings :: "string \<Rightarrow> string \<Rightarrow> string \<Rightarrow> string list" where
  "built_strings src sourceLang targetLang =
     (if lang_or_default sourceLang = lang_or_default targetLang then []
      else
        (let (normalized, normWarnings) = normalizeCode src;
             finalCode = rewrittenCode src sourceLang targetLang
         in normalize_built src
            @ concat (map (\<lambda>line. line_built line (lang_or_default sourceLang)
                                     (lang_or_default targetLang))
                        (split_nl normalized))
            @ [finalCode]
            @ postProcess_built finalCode (lang_or_default targetLang)))"

text \<open>
  \<^verbatim>\<open>transformCode\<close> on an engine whose strings have at most \<^verbatim>\<open>maxLen\<close> code units: the
  result of the pipeline when every string it builds is within the limit, a RangeError
  when one is not.
\<close>

definition transformCode_limited ::
  "nat \<Rightarrow> string \<Rightarrow> string \<Rightarrow> string \<Rightarrow> error + TransformationResult" where
  "transformCode_limited maxLen src sourceLang targetLang =
     (if list_all (\<lambda>s. length s \<le> maxLen) (built_strings src sourceLang targetLang)
      then transformCode src sourceLang targetLang
      else Inl RangeError)"

section \<open>The pipeline never passes a negative count\<close>

lemma repeat_nonneg: "0 \<le> n \<Longrightarrow> \<exists>s'. repeat s n = Inr s'"
  by (simp add: repeat_def)

lemma reindent_total: "0 \<le> n \<Longrightarrow> \<exists>out. reindent n ls = Inr out"
proof (induction ls arbitrary: n)
  case Nil
  then show ?case by simp
next
  case (Cons l ls)
  show ?case
  proof (cases "trim l = []")
    case True
    from Cons.IH [OF Cons.prems] obtain out where "reindent n ls = Inr out" by blast
    with True show ?thesis by simp
  next
    case False
    define n1 where "n1 = (if startsWith (trim l) ''}'' \<or> startsWith (trim l) ''end''
                then max 0 (n - 1) else n)"
    define n2 where "n2 = (if endsWith (trim l) ''{'' \<or> endsWith (trim l) '':'' \<or> trim l = ''do''
                         then n1 + 1 else n1)"
    have n1: "0 \<le> n1" using Cons.prems by (simp add: n1_def)
    then have n2: "0 \<le> n2" by (simp add: n2_def)
    from repeat_nonneg [OF n1] obtain ind where ind: "repeat ''  '' n1 = Inr ind" by blast
    from Cons.IH [OF n2] obtain out where out: "reindent n2 ls = Inr out" by blast
    show ?thesis
      using False ind out by (simp add: Let_def n1_def [symmetric] n2_def [symmetric])
  qed
qed

lemma fix_braces_total: "\<exists>out. fix_braces s = Inr out"
  by (simp add: fix_braces_def Let_def repeat_def)

lemma postProcessCode_total: "\<exists>out. postProcessCode s t = Inr out"
proof -
  obtain p1 where p1: "(if t \<in> set brace_langs then fix_braces s else Inr s) = Inr p1"
    using fix_braces_total [of s] by (cases "t \<in> set brace_langs") auto
  have "\<exists>out. (case reindent 0 ls of Inl e \<Rightarrow> Inl e | Inr out \<Rightarrow> Inr (join_nl out)) = Inr out"
    for ls
  proof -
    obtain out where "reindent 0 ls = Inr out" using reindent_total [of 0 ls] by auto
    then show ?thesis by simp
  qed
  then show ?thesis
    unfolding postProcessCode_def p1 Let_def sum.case by blast
qed

text \<open>
  For every text and every pair of language names, registered or not, the pipeline
  reaches \<^verbatim>\<open>repeat\<close> only with a count that is not negative: on unbounded strings
  \<^verbatim>\<open>transformCode\<close> always returns a result, and the error list of the result is empty.
\<close>

lemma transformCode_total:
  "\<exists>r. transformCode src sourceLang targetLang = Inr r \<and> errors r = []"
proof (cases "lang_or_default sourceLang = lang_or_default targetLang")
  case True
  then show ?thesis by (simp add: transformCode_def Let_def)
next
  case False
  obtain normalized normWarnings where n: "normalizeCode src = (normalized, normWarnings)"
    by (cases "normalizeCode src")
  define st where "st = foldl (loop_step (lang_or_default sourceLang) (lang_or_default targetLang))
                       \<lparr> transformedLines = [], allWarnings = foldl set_add [] normWarnings,
                         statsFunc = 0, statsClass = 0, statsImport = 0 \<rparr>
                       (enumerate 0 (split_nl normalized))"
  obtain cleaned where c: "postProcessCode (join_nl (map transformed (transformedLines st)))
      (lang_or_default targetLang) = Inr cleaned"
    using postProcessCode_total by blast
  show ?thesis
    using False n c by (simp add: transformCode_def Let_def st_def [symmetric])
qed

section \<open>The identity fast path\<close>

text \<open>
  C1. When the two language names are equal up to letter case, \<^verbatim>\<open>transformCode\<close> returns
  the text itself as the result's code, no warnings, and zero transformed lines. This
  holds for the ten supported names and for any other name.
\<close>

theorem identity_fast_path:
  assumes "toLowerCase sourceLang = toLowerCase targetLang"
  shows "\<exists>r. transformCode src sourceLang targetLang = Inr r \<and> code r = src
             \<and> warnings r = [] \<and> linesTransformed (statistics r) = 0"
  using assms by (simp add: transformCode_def lang_or_default_def Let_def)

theorem identity_fast_path_witness:
  "toLowerCase ''Python'' = toLowerCase ''python''
   \<and> (\<exists>r. transformCode ''x = 1'' ''Python'' ''python'' = Inr r \<and> code r = ''x = 1''
             \<and> warnings r = [] \<and> linesTransformed (statistics r) = 0)"
proof -
  have h: "toLowerCase ''Python'' = toLowerCase ''python''" by code_simp
  show ?thesis using h identity_fast_path [OF h, of "''x = 1''"] by simp
qed

section \<open>Worked translations\<close>

text \<open>
  C2. The two-line Python function \<^verbatim>\<open>greet\<close> becomes the JavaScript function with the
  header \<^verbatim>\<open>function greet(name) {\<close>, the call \<^verbatim>\<open>console.log(name);\<close> indented by two
  spaces, and a closing brace on a line of its own.
\<close>

theorem greet_python_to_javascript:
  "code_of (transformCode ''def greet(name):\<newline>    print(name)'' ''Python'' ''JavaScript'')
   = Some ''function greet(name) {\<newline>  console.log(name);\<newline>}''"
  by code_simp

text \<open>
  C9. The Python \<^verbatim>\<open>if\<close>/\<^verbatim>\<open>else\<close> of the scenario does not come out as a two-branch
  \<^verbatim>\<open>if\<close>/\<^verbatim>\<open>else\<close> in brace form. Normalisation appends \<^verbatim>\<open> {\<close> to both headers; the
  conditional rule then takes \<^verbatim>\<open>x > 5: {\<close> for the condition, no rule rewrites
  \<^verbatim>\<open>else: {\<close>, and three closing braces are appended on one line.
\<close>

theorem if_else_python_to_javascript:
  "code_of (transformCode
      ''if x > 5:\<newline>    print(\"big\")\<newline>else:\<newline>    print(\"small\")''
      ''python'' ''javascript'')
   = Some ''if (x > 5: {) {\<newline>  console.log(\"big\");\<newline>  else: {\<newline>    console.log(\"small\");\<newline>  }}}''"
  by code_simp

text \<open>
  C5. A Python class translated to Rust becomes a \<^verbatim>\<open>struct\<close> and the result carries no
  warning, while the same class translated to Go carries the warning that
  \<^verbatim>\<open>transformClassDef\<close> pushes in its Go case.
\<close>

theorem class_to_rust_is_silent:
  "code_of (transformCode ''class Foo:'' ''python'' ''rust'') = Some ''struct Foo {\<newline>}''
   \<and> warnings_of (transformCode ''class Foo:'' ''python'' ''rust'') = Some []
   \<and> warnings_of (transformCode ''class Foo:'' ''python'' ''go'')
       = Some [''Go does not have classes. Converting to struct.'']"
  by code_simp

section \<open>Normalisation is not idempotent\<close>

text \<open>
  C3. On the Python line \<^verbatim>\<open>x = 1,\<close> followed by a line break, \<^verbatim>\<open>normalizeCode\<close> returns
  \<^verbatim>\<open>x = 1, \<close> with a trailing space: the pattern \<^verbatim>\<open>/,\s+/g\<close> takes the line break, after the
  step that removes trailing white space has run. On that output it returns \<^verbatim>\<open>x = 1,\<close>,
  so the second run changes what the first produced.
\<close>

theorem normalizeCode_twice_differs:
  "fst (normalizeCode ''x = 1,\<newline>'') = ''x = 1, ''
   \<and> fst (normalizeCode (fst (normalizeCode ''x = 1,\<newline>''))) = ''x = 1,''"
  by code_simp

section \<open>Mixed-language detection covers three languages\<close>

lemma get0_put_same: "get0 (put k v m) k = v"
  by (induction m) (auto simp: get0_def)

lemma put_put_same: "put k v (put k w m) = put k v m"
  by (induction m) auto

lemma count_hits_step:
  "foldl (\<lambda>m p. put lang (get0 m lang + (if re_test p src then 1 else 0)) m) (put lang v m) ps
   = put lang (v + int (length (filter (\<lambda>p. re_test p src) ps))) m"
  by (induction ps arbitrary: v) (simp_all add: get0_put_same put_put_same add.assoc)

lemma count_hits_nonempty:
  "ps \<noteq> [] \<Longrightarrow> count_hits lang ps src m = put lang (get0 m lang + int (hits ps src)) m"
proof (cases ps)
  case Nil
  assume "ps \<noteq> []" with Nil show ?thesis by simp
next
  case (Cons p qs)
  show ?thesis
    unfolding count_hits_def hits_def Cons
    by (simp add: count_hits_step add.assoc)
qed

lemma mixed_indicators_eq:
  "mixed_indicators src =
     [(''python'', int (hits pythonPatterns src)),
      (''javascript'', int (hits jsPatterns src)),
      (''java'', int (hits javaPatterns src))]"
proof -
  have p: "pythonPatterns \<noteq> []" and j: "jsPatterns \<noteq> []" and v: "javaPatterns \<noteq> []"
    by (simp_all add: pythonPatterns_def jsPatterns_def javaPatterns_def)
  show ?thesis
    unfolding mixed_indicators_def
    by (simp add: count_hits_nonempty [OF p] count_hits_nonempty [OF j]
          count_hits_nonempty [OF v] get0_def)
qed

text \<open>
  C8, as the code has it. \<^verbatim>\<open>detectMixedLanguages\<close> scores three languages only, Python,
  JavaScript and Java, one hit per matching pattern; it reports a mix exactly when more
  than one of these three has a hit, and it never names another language. So a text
  that mixes two supported languages is flagged exactly when it matches patterns of at
  least two of these three, whatever else it contains.
\<close>

theorem detectMixedLanguages_three_languages:
  "mixed_indicators src =
     [(''python'', int (hits pythonPatterns src)),
      (''javascript'', int (hits jsPatterns src)),
      (''java'', int (hits javaPatterns src))]
   \<and> detected (detectMixedLanguages src)
       = (1 < length (filter (\<lambda>ps. 0 < hits ps src) [pythonPatterns, jsPatterns, javaPatterns]))
   \<and> set (languages (detectMixedLanguages src)) \<subseteq> {''python'', ''javascript'', ''java''}"
proof -
  have l: "set (languages (detectMixedLanguages src)) \<subseteq> fst ` set (mixed_indicators src)"
    by (auto simp: detectMixedLanguages_def Let_def)
  show ?thesis
    using l by (auto simp: mixed_indicators_eq detectMixedLanguages_def Let_def)
qed

text \<open>
  C8, the claim as stated fails. The text \<^verbatim>\<open>#include <a>\<close>, \<^verbatim>\<open><?php\<close> carries the
  indicators \<^verbatim>\<open>detectLanguage\<close> scores for C++ and for PHP, two supported languages, and
  \<^verbatim>\<open>detectMixedLanguages\<close> reports no mix and no language.
\<close>

theorem mixed_cpp_php_not_detected:
  "get0 (detectLanguage_scores ''#include <a>\<newline><?php'') ''cpp'' = 3
   \<and> get0 (detectLanguage_scores ''#include <a>\<newline><?php'') ''php'' = 3
   \<and> detected (detectMixedLanguages ''#include <a>\<newline><?php'') = False
   \<and> languages (detectMixedLanguages ''#include <a>\<newline><?php'') = []"
  by code_simp

section \<open>Pairs without rules\<close>

lemma rules_for_outside_tables:
  assumes "transformationMap s = None" and "s \<noteq> ''constructor''" and "s \<noteq> ''__proto__''"
  shows "rules_for s t = Undefined"
  using assms by (simp add: rules_for_def)

lemma rules_for_no_entry:
  assumes "transformationMap s = Some table" and "table t = None"
    and "t \<noteq> ''constructor''" and "t \<noteq> ''__proto__''"
  shows "rules_for s t = Undefined"
  using assms by (simp add: rules_for_def)

text \<open>
  The names that reach an inherited property: from \<^verbatim>\<open>constructor\<close> to Go the lookup is
  undefined and the fallback is returned; from Python to \<^verbatim>\<open>constructor\<close> the lookup finds
  the function \<^verbatim>\<open>Object\<close> and the loop over it raises; from \<^verbatim>\<open>constructor\<close> to \<^verbatim>\<open>name\<close> the
  loop runs over the characters of a string and only the trailing white space goes.
\<close>

lemma v1_inherited_properties:
  "transformCode_v1 ''x'' ''constructor'' ''go'' =
     Inr ''// Translation from constructor to go not fully supported yet\<newline>// Please manually review the converted code\<newline>\<newline>x''"
  "transformCode_v1 ''x'' ''python'' ''constructor'' = Inl TypeError"
  "transformCode_v1 ''x  '' ''constructor'' ''name'' = Inr ''x''"
  by code_simp+




section \<open>Brace balance\<close>

lemma count_char_append [simp]: "count_char c (a @ b) = count_char c a + count_char c b"
  by (simp add: count_char_def)

lemma count_char_Nil [simp]: "count_char c [] = 0"
  by (simp add: count_char_def)

lemma count_char_Cons: "count_char c (x # xs) = (if x = c then 1 else 0) + count_char c xs"
  by (simp add: count_char_def)

lemma count_char_rev [simp]: "count_char c (rev s) = count_char c s"
  by (simp add: count_char_def flip: rev_filter)

lemma count_char_dropWhile:
  "\<not> isSpace c \<Longrightarrow> count_char c (dropWhile isSpace s) = count_char c s"
  by (induction s) (auto simp: count_char_Cons)

lemma count_char_trim: "\<not> isSpace c \<Longrightarrow> count_char c (trim s) = count_char c s"
  by (simp add: trim_def trimEnd_def trimStart_def count_char_dropWhile)

lemma brace_not_space: "\<not> isSpace CHR ''{''" "\<not> isSpace CHR ''}''"
  by (simp_all add: isSpace_def)

lemma split_acc_nonempty: "split_acc cur s \<noteq> []"
  by (induction s arbitrary: cur) auto

lemma join_nl_Cons: "ls \<noteq> [] \<Longrightarrow> join_nl (l # ls) = l @ [CHR 0x0A] @ join_nl ls"
  by (cases ls) (simp_all add: join_nl_def)

lemma join_split_acc: "join_nl (split_acc cur s) = rev cur @ s"
proof (induction s arbitrary: cur)
  case Nil
  show ?case by (simp add: join_nl_def)
next
  case (Cons c cs)
  show ?case
    by (simp add: join_nl_Cons split_acc_nonempty Cons.IH)
qed

lemma join_split [simp]: "join_nl (split_nl s) = s"
  by (simp add: split_nl_def join_split_acc)

lemma count_char_join_nl:
  "c \<noteq> CHR 0x0A \<Longrightarrow> count_char c (join_nl ls) = sum_list (map (count_char c) ls)"
proof (induction ls)
  case Nil
  show ?case by (simp add: join_nl_def)
next
  case (Cons l ls)
  show ?case
  proof (cases ls)
    case Nil
    then show ?thesis by (simp add: join_nl_def)
  next
    case (Cons m ms)
    then have "ls \<noteq> []" by simp
    from join_nl_Cons [OF this] Cons.IH [OF Cons.prems] Cons.prems
    show ?thesis by (simp add: count_char_Cons)
  qed
qed

lemma count_char_lines:
  "c \<noteq> CHR 0x0A \<Longrightarrow> sum_list (map (count_char c) (split_nl s)) = count_char c s"
  using count_char_join_nl [of c "split_nl s"] by simp

lemma closer_line_counts:
  assumes "trim l = ''}''"
  shows "count_char CHR ''}'' l = 1" and "count_char CHR ''{'' l = 0"
proof -
  have "count_char CHR ''}'' (trim l) = 1" "count_char CHR ''{'' (trim l) = 0"
    by (simp_all add: assms count_char_def)
  then show "count_char CHR ''}'' l = 1" "count_char CHR ''{'' l = 0"
    by (simp_all add: count_char_trim brace_not_space)
qed

lemma drop_closers_counts:
  "sum_list (map (count_char CHR ''}'') (drop_closers n ls))
       + min n (length (filter (\<lambda>l. trim l = ''}'') ls))
     = sum_list (map (count_char CHR ''}'') ls)
   \<and> sum_list (map (count_char CHR ''{'') (drop_closers n ls))
     = sum_list (map (count_char CHR ''{'') ls)"
proof (induction ls arbitrary: n)
  case Nil
  show ?case by simp
next
  case (Cons l ls)
  show ?case
  proof (cases "n = 0")
    case True
    then show ?thesis by simp
  next
    case n: False
    then obtain m where m: "n = Suc m" by (cases n) auto
    show ?thesis
    proof (cases "trim l = ''}''")
      case True
      from Cons.IH [of m] True closer_line_counts [OF True]
      show ?thesis by (simp add: m)
    next
      case False
      from Cons.IH [of n] n False show ?thesis by simp
    qed
  qed
qed

declare rmatch.simps(10,11) [simp del]

lemma rmatch_star_space_Nil: "rmatch (RStar rs) (pre, [], caps) = [(pre, [], caps)]"
  by (subst rmatch.simps(10)) (simp add: rs_def)

lemma rmatch_star_space_Cons:
  "rmatch (RStar rs) (pre, x # xs, caps) =
     (if isSpace x then rmatch (RStar rs) (x # pre, xs, caps) else []) @ [(pre, x # xs, caps)]"
  by (subst rmatch.simps(10)) (simp add: rs_def)

lemma rmatch_star_space:
  "st' \<in> set (rmatch (RStar rs) (pre, s, caps)) \<Longrightarrow>
     \<exists>ws. s = ws @ fst (snd st') \<and> (\<forall>w \<in> set ws. isSpace w)"
proof (induction s arbitrary: pre)
  case Nil
  then show ?case by (simp add: rmatch_star_space_Nil)
next
  case (Cons x xs)
  show ?case
  proof (cases "st' = (pre, x # xs, caps)")
    case True
    then show ?thesis by auto
  next
    case False
    with Cons.prems have sp: "isSpace x" and m: "st' \<in> set (rmatch (RStar rs) (x # pre, xs, caps))"
      by (auto simp: rmatch_star_space_Cons split: if_splits)
    from Cons.IH [OF m] obtain ws where "xs = ws @ fst (snd st')" "\<forall>w \<in> set ws. isSpace w"
      by blast
    with sp have "x # xs = (x # ws) @ fst (snd st') \<and> (\<forall>w \<in> set (x # ws). isSpace w)" by simp
    then show ?thesis by blast
  qed
qed

lemma rmatch_nl_brace:
  assumes "st' \<in> set (rmatch nl_brace_re (pre, s, caps))"
  shows "\<exists>ws. s = CHR 0x0A # ws @ CHR ''{'' # fst (snd st') \<and> (\<forall>w \<in> set ws. isSpace w)"
proof -
  from assms obtain s1 where s: "s = CHR 0x0A # s1"
    and "st' \<in> set (concat (map (rmatch (RSeq (RChr CHR ''{'') REps))
                       (rmatch (RStar rs) (CHR 0x0A # pre, s1, caps))))"
    by (cases s) (auto simp: nl_brace_re_def RSeqs_def split: if_splits)
  then obtain st1 where st1: "st1 \<in> set (rmatch (RStar rs) (CHR 0x0A # pre, s1, caps))"
    and b: "st' \<in> set (rmatch (RSeq (RChr CHR ''{'') REps) st1)"
    by auto
  from rmatch_star_space [OF st1] obtain ws where ws: "s1 = ws @ fst (snd st1)"
    "\<forall>w \<in> set ws. isSpace w" by blast
  obtain p1 r1 c1 where st1_eq: "st1 = (p1, r1, c1)" by (cases st1)
  from b have "r1 = CHR ''{'' # fst (snd st')"
    unfolding st1_eq by (cases r1) (auto split: if_splits)
  with ws s st1_eq show ?thesis by auto
qed

lemma count_spaces_brace:
  "\<forall>w \<in> set ws. isSpace w \<Longrightarrow> \<not> isSpace c \<Longrightarrow> count_char c ws = 0"
  by (induction ws) (auto simp: count_char_Cons)

lemma replace_nl_brace_counts:
  assumes c: "c = CHR ''{'' \<or> c = CHR ''}''"
  shows "count_char c (replace_from nl_brace_re (\<lambda>m g. '' {'') pre s) = count_char c s"
proof (induction "length s" arbitrary: s pre rule: less_induct)
  case less
  show ?case
  proof (cases s)
    case Nil
    have "rmatch nl_brace_re (pre, [], []) = []"
      by (simp add: nl_brace_re_def RSeqs_def)
    with Nil show ?thesis by simp
  next
    case (Cons x xs)
    show ?thesis
    proof (cases "rmatch nl_brace_re (pre, x # xs, [])")
      case Nil
      with Cons less.hyps [of xs "x # pre"] show ?thesis
        by (simp add: count_char_Cons)
    next
      case (Cons st' sts)
      obtain pre' rest' caps' where st': "st' = (pre', rest', caps')" by (cases st')
      have "st' \<in> set (rmatch nl_brace_re (pre, x # xs, []))" using Cons by simp
      from rmatch_nl_brace [OF this] st' obtain ws where
        ws: "x # xs = CHR 0x0A # ws @ CHR ''{'' # rest'" "\<forall>w \<in> set ws. isSpace w" by auto
      then have len: "length rest' < length (x # xs)" 
        by (metis add_Suc_right length_Cons length_append less_SucI less_add_Suc2)
      have sp: "\<not> isSpace c" using c by (auto simp: isSpace_def)
      have cnt: "count_char c (x # xs) = count_char c '' {'' + count_char c rest'"
        unfolding ws(1) using c count_spaces_brace [OF ws(2) sp]
        by (auto simp: count_char_Cons)
      have ih: "count_char c (replace_from nl_brace_re (\<lambda>m g. '' {'') pre' rest')
                  = count_char c rest'"
        using less.hyps [of rest' pre'] len \<open>s = x # xs\<close> by simp
      show ?thesis
        unfolding \<open>s = x # xs\<close> using Cons st' len ih cnt 
        by (simp add: count_char_Cons [of c "CHR '' ''"] count_char_Cons [of c "CHR ''{''"])
    qed
  qed
qed

lemma repeat_spaces_count:
  "repeat ''  '' n = Inr ind \<Longrightarrow> c \<noteq> CHR '' '' \<Longrightarrow> count_char c ind = 0"
proof -
  have "c \<noteq> CHR '' '' \<Longrightarrow> count_char c (concat (replicate k ''  '')) = 0" for k
    by (induction k) (simp_all add: count_char_Cons)
  then show "repeat ''  '' n = Inr ind \<Longrightarrow> c \<noteq> CHR '' '' \<Longrightarrow> count_char c ind = 0"
    by (auto simp: repeat_def split: if_splits)
qed

lemma reindent_counts:
  "reindent n ls = Inr out \<Longrightarrow> \<not> isSpace c \<Longrightarrow>
     sum_list (map (count_char c) out) = sum_list (map (count_char c) ls)"
proof (induction ls arbitrary: n out)
  case Nil
  then show ?case by simp
next
  case (Cons l ls)
  have csp: "c \<noteq> CHR '' ''" using Cons.prems(2) by (auto simp: isSpace_def)
  show ?case
  proof (cases "trim l = []")
    case True
    with Cons.prems(1) obtain out' where o: "reindent n ls = Inr out'" "out = [] # out'"
      by (auto split: sum.splits)
    have "count_char c (trim l) = 0" using True by simp
    then have "count_char c l = 0" by (simp add: count_char_trim Cons.prems(2))
    with Cons.IH [OF o(1) Cons.prems(2)] o(2) show ?thesis by simp
  next
    case False
    define n1 where "n1 = (if startsWith (trim l) ''}'' \<or> startsWith (trim l) ''end''
                then max 0 (n - 1) else n)"
    define n2 where "n2 = (if endsWith (trim l) ''{'' \<or> endsWith (trim l) '':'' \<or> trim l = ''do''
                         then n1 + 1 else n1)"
    from Cons.prems(1) False obtain ind out' where
      o: "repeat ''  '' n1 = Inr ind" "reindent n2 ls = Inr out'" "out = (ind @ trim l) # out'"
      by (auto simp: Let_def n1_def [symmetric] n2_def [symmetric] split: sum.splits)
    from repeat_spaces_count [OF o(1) csp] Cons.IH [OF o(2) Cons.prems(2)] o(3)
    show ?thesis by (simp add: count_char_trim Cons.prems(2))
  qed
qed

text \<open>
  What the brace block does to the two counts. With \<^verbatim>\<open>o\<close> opening braces, \<^verbatim>\<open>c\<close> closing
  braces and \<^verbatim>\<open>m\<close> lines that are a lone closing brace, the text leaves the block with
  \<^verbatim>\<open>o\<close> opening braces and \<^verbatim>\<open>max o (c - m)\<close> closing braces.
\<close>

lemma fix_braces_counts:
  "\<exists>out. fix_braces src = Inr out
     \<and> count_char CHR ''{'' out = count_char CHR ''{'' src
     \<and> count_char CHR ''}'' out
         = max (count_char CHR ''{'' src)
               (count_char CHR ''}'' src
                  - length (filter (\<lambda>l. trim l = ''}'') (split_nl src)))"
proof -
  let ?o = "count_char CHR ''{'' src" and ?c = "count_char CHR ''}'' src"
  let ?m = "length (filter (\<lambda>l. trim l = ''}'') (split_nl src))"
  have rep: "count_char c (replace_all nl_brace_re (\<lambda>m g. '' {'') b) = count_char c b"
    if "c = CHR ''{'' \<or> c = CHR ''}''" for c b
    using replace_nl_brace_counts [OF that] by (simp add: replace_all_def)
  consider (more_open) "?c < ?o" | (more_close) "?o < ?c" | (eq) "?o = ?c" by linarith
  then show ?thesis
  proof cases
    case more_open
    have "count_char CHR ''}'' (concat (replicate k ''}'')) = k
          \<and> count_char CHR ''{'' (concat (replicate k ''}'')) = 0" for k
      by (induction k) (simp_all add: count_char_Cons)
    with more_open show ?thesis
      by (simp add: fix_braces_def Let_def repeat_def rep count_char_Cons)
  next
    case more_close
    define n where "n = ?c - ?o"
    define ls where "ls = rev (split_nl src)"
    have m: "length (filter (\<lambda>l. trim l = ''}'') ls) = ?m"
      by (simp add: ls_def flip: rev_filter)
    have nat_n: "nat (int ?c - int ?o) = n" using more_close by (simp add: n_def)
    from drop_closers_counts [of n ls]
    have d: "sum_list (map (count_char CHR ''}'') (drop_closers n ls)) + min n ?m = ?c"
      "sum_list (map (count_char CHR ''{'') (drop_closers n ls)) = ?o"
      by (simp_all add: m) (simp_all add: ls_def rev_map [symmetric] count_char_lines)
    have o: "count_char CHR ''{'' (join_nl (rev (drop_closers n ls))) = ?o"
      using d(2) by (simp add: count_char_join_nl rev_map [symmetric])
    have "count_char CHR ''}'' (join_nl (rev (drop_closers n ls))) + min n ?m = ?c"
      using d(1) by (simp add: count_char_join_nl rev_map [symmetric])
    then have c: "count_char CHR ''}'' (join_nl (rev (drop_closers n ls))) = max ?o (?c - ?m)"
      using more_close by (simp add: n_def)
    from more_close o c show ?thesis
      by (simp add: fix_braces_def Let_def rep nat_n ls_def)
  next
    case eq
    then show ?thesis by (simp add: fix_braces_def Let_def rep)
  qed
qed

lemma postProcessCode_counts:
  assumes "targetLang \<in> set brace_langs"
  shows "\<exists>out. postProcessCode src targetLang = Inr out
     \<and> count_char CHR ''{'' out = count_char CHR ''{'' src
     \<and> count_char CHR ''}'' out
         = max (count_char CHR ''{'' src)
               (count_char CHR ''}'' src
                  - length (filter (\<lambda>l. trim l = ''}'') (split_nl src)))"
proof -
  from fix_braces_counts [of src] obtain p1 where
    p1: "fix_braces src = Inr p1" "count_char CHR ''{'' p1 = count_char CHR ''{'' src"
      "count_char CHR ''}'' p1
         = max (count_char CHR ''{'' src)
               (count_char CHR ''}'' src
                  - length (filter (\<lambda>l. trim l = ''}'') (split_nl src)))" by blast
  have np: "targetLang \<noteq> ''python''" "targetLang \<noteq> ''ruby''"
    using assms(1) by (auto simp: brace_langs_def)
  define p4 where "p4 = (if targetLang = ''go'' \<and> \<not> includes_str p1 ''package ''
                     then ''package main'' @ [CHR 0x0A, CHR 0x0A] @ p1 else p1)"
  have p4: "count_char CHR ''{'' p4 = count_char CHR ''{'' p1"
    "count_char CHR ''}'' p4 = count_char CHR ''}'' p1"
    by (simp_all add: p4_def count_char_Cons)
  from reindent_total [of 0 "split_nl p4"] obtain out where out: "reindent 0 (split_nl p4) = Inr out"
    by auto
  have "count_char c (join_nl out) = count_char c p4" if "c = CHR ''{'' \<or> c = CHR ''}''" for c
  proof -
    have "\<not> isSpace c" "c \<noteq> CHR 0x0A" using that by (auto simp: isSpace_def)
    with reindent_counts [OF out] show ?thesis
      by (simp add: count_char_join_nl count_char_lines)
  qed
  with p4 p1(2,3) have "count_char CHR ''{'' (join_nl out) = count_char CHR ''{'' src"
    "count_char CHR ''}'' (join_nl out)
         = max (count_char CHR ''{'' src)
               (count_char CHR ''}'' src
                  - length (filter (\<lambda>l. trim l = ''}'') (split_nl src)))" by simp_all
  moreover have "postProcessCode src targetLang = Inr (join_nl out)"
    using assms(1) p1(1) np out by (simp add: postProcessCode_def Let_def p4_def [symmetric])
  ultimately show ?thesis by blast
qed

lemma transformCode_code_of:
  assumes "lang_or_default sourceLang \<noteq> lang_or_default targetLang"
    and "postProcessCode (rewrittenCode src sourceLang targetLang) (lang_or_default targetLang)
           = Inr out"
  shows "\<exists>r. transformCode src sourceLang targetLang = Inr r \<and> code r = out"
proof -
  obtain normalized normWarnings where n: "normalizeCode src = (normalized, normWarnings)"
    by (cases "normalizeCode src")
  show ?thesis
    using assms n by (simp add: transformCode_def rewrittenCode_def Let_def)
qed

text \<open>
  C4, as the code has it. The brace block of \<^verbatim>\<open>postProcessCode\<close> runs for seven target
  names: javascript, typescript, java, cpp, csharp, go and rust. When the target is one
  of them and differs from the source, let \<^verbatim>\<open>o\<close> and \<^verbatim>\<open>c\<close> be the numbers of opening and
  closing braces of the rewritten text (\<^verbatim>\<open>finalCode\<close>) and \<^verbatim>\<open>m\<close> the number of its lines
  that are a lone closing brace. Then the returned code has \<^verbatim>\<open>o\<close> opening braces and
  \<^verbatim>\<open>max o (c - m)\<close> closing braces: missing closers are appended, and excess closers are
  removed only as whole lines. So the returned code is balanced if and only if
  \<^verbatim>\<open>c - o \<le> m\<close>, which holds in particular when \<^verbatim>\<open>c \<le> o\<close>.
\<close>

theorem transformCode_balances:
  assumes "lang_or_default sourceLang \<noteq> lang_or_default targetLang"
    and "lang_or_default targetLang \<in> set brace_langs"
  shows "\<exists>r. transformCode src sourceLang targetLang = Inr r
     \<and> count_char CHR ''{'' (code r)
         = count_char CHR ''{'' (rewrittenCode src sourceLang targetLang)
     \<and> count_char CHR ''}'' (code r)
         = max (count_char CHR ''{'' (rewrittenCode src sourceLang targetLang))
               (count_char CHR ''}'' (rewrittenCode src sourceLang targetLang)
                  - length (filter (\<lambda>l. trim l = ''}'')
                              (split_nl (rewrittenCode src sourceLang targetLang))))
     \<and> ((count_char CHR ''{'' (code r) = count_char CHR ''}'' (code r))
        = (count_char CHR ''}'' (rewrittenCode src sourceLang targetLang)
             - count_char CHR ''{'' (rewrittenCode src sourceLang targetLang)
           \<le> length (filter (\<lambda>l. trim l = ''}'')
                       (split_nl (rewrittenCode src sourceLang targetLang)))))"
proof -
  let ?rw = "rewrittenCode src sourceLang targetLang"
  from postProcessCode_counts [OF assms(2), of ?rw] obtain out where
    out: "postProcessCode ?rw (lang_or_default targetLang) = Inr out"
    and o: "count_char CHR ''{'' out = count_char CHR ''{'' ?rw"
    and c: "count_char CHR ''}'' out
         = max (count_char CHR ''{'' ?rw)
               (count_char CHR ''}'' ?rw - length (filter (\<lambda>l. trim l = ''}'') (split_nl ?rw)))"
    by blast
  from transformCode_code_of [OF assms(1) out] obtain r where
    r: "transformCode src sourceLang targetLang = Inr r" "code r = out" by blast
  have "(count_char CHR ''{'' out = count_char CHR ''}'' out)
        = (count_char CHR ''}'' ?rw - count_char CHR ''{'' ?rw
           \<le> length (filter (\<lambda>l. trim l = ''}'') (split_nl ?rw)))"
    unfolding o c by linarith
  with r o c show ?thesis by simp
qed

theorem transformCode_balances_witness:
  "lang_or_default ''python'' \<noteq> lang_or_default ''rust''
   \<and> lang_or_default ''rust'' \<in> set brace_langs
   \<and> rewrittenCode ''x\<newline>}'' ''python'' ''rust'' = ''x\<newline>}''
   \<and> (\<exists>r. transformCode ''x\<newline>}'' ''python'' ''rust'' = Inr r
          \<and> count_char CHR ''{'' (code r) = 0 \<and> count_char CHR ''}'' (code r) = 0)
   \<and> rewrittenCode ''x\<newline>}\<newline>y }'' ''python'' ''rust'' = ''x\<newline>}\<newline>y }''
   \<and> (\<exists>r. transformCode ''x\<newline>}\<newline>y }'' ''python'' ''rust'' = Inr r
          \<and> count_char CHR ''{'' (code r) = 0 \<and> count_char CHR ''}'' (code r) = 1)"
proof -
  have a: "lang_or_default ''python'' \<noteq> lang_or_default ''rust''" by code_simp
  have b: "lang_or_default ''rust'' \<in> set brace_langs" by code_simp
  have r1: "rewrittenCode ''x\<newline>}'' ''python'' ''rust'' = ''x\<newline>}''" by code_simp
  have n1: "count_char CHR ''{'' ''x\<newline>}'' = 0" "count_char CHR ''}'' ''x\<newline>}'' = 1"
    "length (filter (\<lambda>l. trim l = ''}'') (split_nl ''x\<newline>}'')) = 1"
    by code_simp+
  have r2: "rewrittenCode ''x\<newline>}\<newline>y }'' ''python'' ''rust'' = ''x\<newline>}\<newline>y }''" by code_simp
  have n2: "count_char CHR ''{'' ''x\<newline>}\<newline>y }'' = 0" "count_char CHR ''}'' ''x\<newline>}\<newline>y }'' = 2"
    "length (filter (\<lambda>l. trim l = ''}'') (split_nl ''x\<newline>}\<newline>y }'')) = 1"
    by code_simp+
  have w1: "\<exists>r. transformCode ''x\<newline>}'' ''python'' ''rust'' = Inr r
          \<and> count_char CHR ''{'' (code r) = 0 \<and> count_char CHR ''}'' (code r) = 0"
    using transformCode_balances [OF a b, of "''x\<newline>}''"] by (auto simp: r1 n1)
  have w2: "\<exists>r. transformCode ''x\<newline>}\<newline>y }'' ''python'' ''rust'' = Inr r
          \<and> count_char CHR ''{'' (code r) = 0 \<and> count_char CHR ''}'' (code r) = 1"
    using transformCode_balances [OF a b, of "''x\<newline>}\<newline>y }''"] by (auto simp: r2 n2)
  show ?thesis using a b r1 r2 w1 w2 by blast
qed

text \<open>
  C4, the claim as stated fails, in three ways. From Python to Rust the text \<^verbatim>\<open>x }\<close>
  comes back as it is: its closing brace is not on a line of its own, so nothing is
  removed. From Python to PHP, a target that writes blocks in braces but is not in the
  list of \<^verbatim>\<open>postProcessCode\<close>, a function definition gets its opening brace and no closing
  one. From Go to Go, the identity branch returns a lone closing brace untouched.
\<close>

theorem closer_inside_line_stays:
  "code_of (transformCode ''x }'' ''python'' ''rust'') = Some ''x }''
   \<and> count_char CHR ''{'' ''x }'' = 0 \<and> count_char CHR ''}'' ''x }'' = 1
   \<and> code_of (transformCode ''def f():\<newline>    pass'' ''python'' ''php'')
       = Some ''function f() {\<newline>  pass''
   \<and> count_char CHR ''{'' ''function f() {\<newline>  pass'' = 1
   \<and> count_char CHR ''}'' ''function f() {\<newline>  pass'' = 0
   \<and> code_of (transformCode ''}'' ''go'' ''go'') = Some ''}''"
  by code_simp

section \<open>Results longer than a string may be\<close>

text \<open>The list of built strings ends with the value the function returns.\<close>

lemma preprocess_built_last: "last (preprocess_built src) = fst (preprocessCode src)"
  by (simp add: preprocess_built_def preprocessCode_def Let_def)

lemma normalize_built_last: "last (normalize_built src) = fst (normalizeCode src)"
  by (simp add: normalize_built_def normalizeCode_def Let_def case_prod_beta)

lemma line_built_last:
  "last (line # line_built line s t) = transformed (transformLine line s t i)"
  by (simp add: line_built_def transformLine_def Let_def case_prod_beta)

lemma postProcess_built_result:
  "\<exists>out. postProcessCode src t = Inr out \<and> postProcess_built src t \<noteq> []
         \<and> last (postProcess_built src t) = out"
proof -
  have "\<forall>ls. \<exists>out. reindent 0 ls = Inr out" using reindent_total [of 0] by simp
  then obtain f where f: "\<And>ls. reindent 0 ls = Inr (f ls)" by metis
  obtain p1 where p1: "(if t \<in> set brace_langs then fix_braces src else Inr src) = Inr p1"
    using fix_braces_total [of src] by (cases "t \<in> set brace_langs") auto
  show ?thesis
    unfolding postProcessCode_def postProcess_built_def p1 Let_def sum.case
    by (simp add: f)
qed

lemma built_strings_last:
  assumes "lang_or_default sourceLang \<noteq> lang_or_default targetLang"
    and "transformCode src sourceLang targetLang = Inr r"
  shows "last (built_strings src sourceLang targetLang) = code r"
proof -
  obtain out where out: "postProcessCode (rewrittenCode src sourceLang targetLang)
      (lang_or_default targetLang) = Inr out"
    and ne: "postProcess_built (rewrittenCode src sourceLang targetLang)
      (lang_or_default targetLang) \<noteq> []"
    and l: "last (postProcess_built (rewrittenCode src sourceLang targetLang)
      (lang_or_default targetLang)) = out"
    using postProcess_built_result by blast
  from transformCode_code_of [OF assms(1) out] assms(2) have c: "code r = out" by auto
  show ?thesis
    using assms(1) l ne by (simp add: built_strings_def Let_def case_prod_beta c)
qed

lemma built_strings_identity:
  "lang_or_default sourceLang = lang_or_default targetLang \<Longrightarrow>
     built_strings src sourceLang targetLang = []"
  by (simp add: built_strings_def)

text \<open>
  C7, as the code has it. For every text and every pair of language names, registered
  or not, \<^verbatim>\<open>transformCode\<close> returns a \<^verbatim>\<open>TransformationResult\<close> record, all six fields
  there and the error list empty, whenever every string it builds on the way is within
  the engine's maximum length; the record is the one the pipeline computes on
  unbounded strings. No text and no name is rejected: \<^verbatim>\<open>repeat\<close> is only reached with a
  count that is not negative.
\<close>

theorem transformCode_within_limit:
  assumes "list_all (\<lambda>s. length s \<le> maxLen) (built_strings src sourceLang targetLang)"
  shows "\<exists>r. transformCode_limited maxLen src sourceLang targetLang = Inr r
             \<and> transformCode src sourceLang targetLang = Inr r \<and> errors r = []"
  using assms transformCode_total [of src sourceLang targetLang]
  by (simp add: transformCode_limited_def)

theorem transformCode_within_limit_witness:
  "list_all (\<lambda>s. length s \<le> 2 ^ 29 - 24)
     (built_strings ''def greet(name):\<newline>    print(name)'' ''python'' ''javascript'')
   \<and> (\<exists>r. transformCode_limited (2 ^ 29 - 24) ''def greet(name):\<newline>    print(name)''
              ''python'' ''javascript'' = Inr r \<and> errors r = [])"
proof -
  have "list_all (\<lambda>s. length s \<le> 50)
     (built_strings ''def greet(name):\<newline>    print(name)'' ''python'' ''javascript'')"
    by code_simp
  then have a: "list_all (\<lambda>s. length s \<le> 2 ^ 29 - 24)
     (built_strings ''def greet(name):\<newline>    print(name)'' ''python'' ''javascript'')"
    by (rule list.pred_mono_strong) simp
  show ?thesis using a transformCode_within_limit [OF a] by blast
qed

text \<open>
  A text of \<^verbatim>\<open>m\<close> lines, each a colon. From Go to PHP no pattern of the pipeline matches
  anywhere in it, so it reaches the re-indentation as it is; there every line ends a
  block header, line \<^verbatim>\<open>i\<close> gets \<^verbatim>\<open>2 * i\<close> spaces, and the lines joined have more than
  \<^verbatim>\<open>m * m\<close> characters.
\<close>

lemma replace_from_colon_lines:
  assumes "\<And>pre. rmatch r (pre, [], []) = []"
    and "\<And>pre t. rmatch r (pre, CHR '':'' # t, []) = []"
    and "\<And>pre. rmatch r (pre, [CHR 0x0A], []) = []"
    and "\<And>pre t. rmatch r (pre, CHR 0x0A # CHR '':'' # t, []) = []"
  shows "replace_from r f pre (concat (replicate m '':\<newline>'')) = concat (replicate m '':\<newline>'')"
proof (induction m arbitrary: pre)
  case 0
  show ?case by (simp add: assms(1))
next
  case (Suc m)
  have nl: "rmatch r (p, CHR 0x0A # concat (replicate m '':\<newline>''), []) = []" for p
    by (cases m) (simp_all add: assms(3,4))
  show ?case by (simp add: assms(2) nl Suc.IH)
qed

lemma replace_all_colon_lines:
  assumes "\<And>pre. rmatch r (pre, [], []) = []"
    and "\<And>pre t. rmatch r (pre, CHR '':'' # t, []) = []"
    and "\<And>pre. rmatch r (pre, [CHR 0x0A], []) = []"
    and "\<And>pre t. rmatch r (pre, CHR 0x0A # CHR '':'' # t, []) = []"
  shows "replace_all r f (concat (replicate m '':\<newline>'')) = concat (replicate m '':\<newline>'')"
  unfolding replace_all_def by (rule replace_from_colon_lines [OF assms])

lemma split_acc_colon_lines:
  "split_acc [] (concat (replicate m '':\<newline>'')) = replicate m '':'' @ [[]]"
  by (induction m) simp_all

lemma split_nl_colon_lines:
  "split_nl (concat (replicate m '':\<newline>'')) = replicate m '':'' @ [[]]"
  by (simp add: split_nl_def split_acc_colon_lines)

lemma map_colon_lines:
  assumes "f '':'' = '':''" and "f [] = []"
  shows "join_nl (map f (split_nl (concat (replicate m '':\<newline>'')))) = concat (replicate m '':\<newline>'')"
proof -
  have "map f (split_nl (concat (replicate m '':\<newline>''))) = split_nl (concat (replicate m '':\<newline>''))"
    by (simp add: split_nl_colon_lines assms)
  then show ?thesis by simp
qed

lemma preprocessCode_colon_lines:
  "fst (preprocessCode (concat (replicate m '':\<newline>''))) = concat (replicate m '':\<newline>'')"
proof -
  let ?t = "concat (replicate m '':\<newline>'')"
  have p1: "replace_all (RLit [CHR 0x0D, CHR 0x0A]) f ?t = ?t" for f
    by (rule replace_all_colon_lines) (simp_all add: RLit_def)
  have te: "trimEnd '':'' = '':''" "trimEnd [] = []" by code_simp+
  have p2: "join_nl (map trimEnd (split_nl ?t)) = ?t"
    by (rule map_colon_lines) (simp_all add: te)
  have p3: "replace_all (RSeqs [RGrp 1 rw, RPlus rs, RChr CHR ''{'']) f ?t = ?t" for f
    by (rule replace_all_colon_lines)
       (simp_all add: RSeqs_def rw_def isWordChar_def isSpace_def)
  have p4: "replace_all (RSeqs [RChr CHR '','', RPlus rs]) f ?t = ?t" for f
    by (rule replace_all_colon_lines) (simp_all add: RSeqs_def)
  have p5: "replace_all (RSeqs [RPlus rs, RChr CHR '';'']) f ?t = ?t" for f
    by (rule replace_all_colon_lines)
       (simp_all add: RSeqs_def RPlus_def rmatch_star_space_Nil rmatch_star_space_Cons isSpace_def
          rmatch.simps(5) [of "[CSpace]", folded rs_def] rmatch.simps(4) [of "[CSpace]", folded rs_def])
  show ?thesis
    unfolding preprocessCode_def Let_def p1 p2 p3 p4 p5 by simp
qed

lemma rmatch_spaces_at_colon:
  "rmatch (RStar rs) (pre, CHR '':'' # t, caps) = [(pre, CHR '':'' # t, caps)]"
  by (simp add: rmatch_star_space_Cons isSpace_def)

lemma rmatch_spaces_at_nl_colon:
  "rmatch (RStar rs) (pre, CHR 0x0A # CHR '':'' # t, caps)
     = [(CHR 0x0A # pre, CHR '':'' # t, caps), (pre, CHR 0x0A # CHR '':'' # t, caps)]"
  by (simp add: rmatch_star_space_Cons isSpace_def)

lemma rmatch_spaces_at_nl:
  "rmatch (RStar rs) (pre, [CHR 0x0A], caps) = [(CHR 0x0A # pre, [], caps), (pre, [CHR 0x0A], caps)]"
  by (simp add: rmatch_star_space_Cons rmatch_star_space_Nil isSpace_def)

lemmas rmatch_spaces_colon_lines =
  rmatch_star_space_Nil rmatch_spaces_at_colon rmatch_spaces_at_nl_colon rmatch_spaces_at_nl

lemma normalizeCode_colon_lines:
  "fst (normalizeCode (concat (replicate m '':\<newline>''))) = concat (replicate m '':\<newline>'')"
proof -
  let ?t = "concat (replicate m '':\<newline>'')"
  obtain ws where pre: "preprocessCode ?t = (?t, ws)"
    using preprocessCode_colon_lines [of m] by (cases "preprocessCode ?t") simp
  have n1: "replace_all (RSeqs [RBolM, RStar rs, RLit ''elif'', RPlus rs]) f ?t = ?t" for f
    by (rule replace_all_colon_lines)
       (simp_all add: RSeqs_def rmatch_spaces_colon_lines RLit_def split: list.split)
  have n2: "replace_all colon_re f ?t = ?t" for f
    by (rule replace_all_colon_lines)
       (simp_all add: colon_re_def RSeqs_def rmatch_spaces_colon_lines RLit_def split: list.split)
  have n3: "replace_all brace_re f ?t = ?t" for f
    by (rule replace_all_colon_lines)
       (simp_all add: brace_re_def RSeqs_def rmatch_spaces_colon_lines RLit_def split: list.split)
  have fq: "fix_quotes '':'' = '':''" "fix_quotes [] = []" by code_simp+
  have n4: "join_nl (map fix_quotes (split_nl ?t)) = ?t"
    by (rule map_colon_lines) (simp_all add: fq)
  have n5: "replace_all (RSeq (RChr CHR '';'') (RPlus (RChr CHR '';''))) f ?t = ?t" for f
    by (rule replace_all_colon_lines) simp_all
  have n6: "replace_all (RLit ''||'') f ?t = ?t" for f
    by (rule replace_all_colon_lines) (simp_all add: RLit_def)
  have n7: "replace_all (RLit ''&&'') f ?t = ?t" for f
    by (rule replace_all_colon_lines) (simp_all add: RLit_def)
  show ?thesis
    unfolding normalizeCode_def Let_def pre prod.case n1 n2 n3 n4 n5 n6 n7 by simp
qed

lemma transformedLines_foldl:
  "transformedLines (foldl (loop_step s t) st ils)
     = transformedLines st @ map (\<lambda>(i, l). transformLine l s t i) ils"
  by (induction ils arbitrary: st) (simp_all add: loop_step_def Let_def case_prod_beta)

lemma transformLine_colon:
  "transformed (transformLine '':'' ''go'' ''php'' i) = '':''"
  "transformed (transformLine [] ''go'' ''php'' i) = []"
  by code_simp+

lemma rewrittenCode_colon_lines:
  "rewrittenCode (concat (replicate m '':\<newline>'')) ''go'' ''php'' = concat (replicate m '':\<newline>'')"
proof -
  let ?t = "concat (replicate m '':\<newline>'')"
  obtain ws where n: "normalizeCode ?t = (?t, ws)"
    using normalizeCode_colon_lines [of m] by (cases "normalizeCode ?t") simp
  have l: "lang_or_default ''go'' = ''go''" "lang_or_default ''php'' = ''php''" by code_simp+
  have "map (\<lambda>x. transformed (case x of (i, l) \<Rightarrow> transformLine l ''go'' ''php'' i))
          (enumerate k ls) = ls"
    if "set ls \<subseteq> {'':'', []}" for k ls
    using that by (induction ls arbitrary: k) (auto simp: transformLine_colon)
  moreover have "set (split_nl ?t) \<subseteq> {'':'', []}"
    by (auto simp: split_nl_colon_lines)
  ultimately
  have "map (\<lambda>x. transformed (case x of (i, l) \<Rightarrow> transformLine l ''go'' ''php'' i))
          (enumerate 0 (split_nl ?t)) = split_nl ?t"
    by blast
  then show ?thesis
    by (simp add: rewrittenCode_def n l transformedLines_foldl comp_def)
qed

lemma length_join_nl: "sum_list (map length ls) \<le> length (join_nl ls)"
proof (induction ls)
  case Nil
  show ?case by (simp add: join_nl_def)
next
  case (Cons l ls)
  then show ?case by (cases ls) (simp_all add: join_nl_def)
qed

lemma reindent_colon_lines:
  "reindent (int k) (replicate m '':'' @ [[]]) = Inr out \<Longrightarrow>
     sum_list (map length out) = m * (2 * k + m)"
proof (induction m arbitrary: k out)
  case 0
  have "trim [] = []" by code_simp
  with 0 show ?case by auto
next
  case (Suc m)
  have t: "trim '':'' = '':''" "startsWith '':'' ''}'' = False" "startsWith '':'' ''end'' = False"
    "endsWith '':'' '':'' = True"
    by code_simp+
  have r: "repeat ''  '' (int k) = Inr (concat (replicate k ''  ''))" by (simp add: repeat_def)
  have len: "length (concat (replicate k ''  '')) = 2 * k" by (induction k) simp_all
  from Suc.prems obtain out' where
    o: "reindent (int (Suc k)) (replicate m '':'' @ [[]]) = Inr out'"
       "out = (concat (replicate k ''  '') @ '':'') # out'"
    by (auto simp: t r Let_def add.commute split: sum.splits)
  from Suc.IH [OF o(1)] show ?case by (simp add: o(2) len algebra_simps)
qed

lemma colon_lines_length: "length (concat (replicate m '':\<newline>'')) = 2 * m"
  by (induction m) simp_all

lemma postProcess_built_last:
  assumes "targetLang \<notin> set brace_langs" and "targetLang \<noteq> ''python''"
    and "targetLang \<noteq> ''ruby''" and "targetLang \<noteq> ''go''"
    and "reindent 0 (split_nl src) = Inr out"
  shows "join_nl out \<in> set (postProcess_built src targetLang)"
  using assms by (simp add: postProcess_built_def Let_def)

lemma colon_lines_exceed_limit:
  assumes "maxLen < m * m"
  shows "transformCode_limited maxLen (concat (replicate m '':\<newline>'')) ''go'' ''php''
           = Inl RangeError"
proof -
  let ?t = "concat (replicate m '':\<newline>'')"
  have l: "lang_or_default ''go'' = ''go''" "lang_or_default ''php'' = ''php''" by code_simp+
  obtain out where out: "reindent 0 (split_nl ?t) = Inr out"
    using reindent_total [of 0 "split_nl ?t"] by auto
  then have "reindent (int 0) (replicate m '':'' @ [[]]) = Inr out"
    by (simp add: split_nl_colon_lines)
  from reindent_colon_lines [OF this] have "sum_list (map length out) = m * m" by simp
  with length_join_nl [of out] assms have big: "\<not> length (join_nl out) \<le> maxLen" by simp
  have "join_nl out \<in> set (postProcess_built ?t ''php'')"
    by (rule postProcess_built_last [OF _ _ _ _ out]) (simp_all add: brace_langs_def)
  then have "join_nl out \<in> set (built_strings ?t ''go'' ''php'')"
    by (simp add: built_strings_def l rewrittenCode_colon_lines case_prod_beta Let_def)
  with big have "\<not> list_all (\<lambda>s. length s \<le> maxLen) (built_strings ?t ''go'' ''php'')"
    by (auto simp: list_all_iff)
  then show ?thesis by (simp add: transformCode_limited_def)
qed

text \<open>
  C7, the claim as stated fails. 23171 lines of one colon each are 46342 characters;
  from Go to PHP the re-indented text would have more than \<^verbatim>\<open>2^29 - 24\<close> characters, and
  \<^verbatim>\<open>transformCode\<close> raises a RangeError.
\<close>

theorem deep_nesting_exceeds_string_limit:
  "length (concat (replicate 23171 '':\<newline>'')) = 46342
   \<and> transformCode_limited (2 ^ 29 - 24) (concat (replicate 23171 '':\<newline>'')) ''go'' ''php''
       = Inl RangeError"
proof
  show "length (concat (replicate 23171 '':\<newline>'')) = 46342"
    unfolding colon_lines_length by simp
  show "transformCode_limited (2 ^ 29 - 24) (concat (replicate 23171 '':\<newline>'')) ''go'' ''php''
          = Inl RangeError"
    by (rule colon_lines_exceed_limit) simp
qed

section \<open>Line changes\<close>

text \<open>
  C10. \<^verbatim>\<open>calculateLineChanges\<close> returns one entry per line of the before text, in order:
  entry \<^verbatim>\<open>i\<close> carries line \<^verbatim>\<open>i\<close> of the before text and line \<^verbatim>\<open>i\<close> of the after text (the
  empty text when the after text is shorter). Lines of the after text past the last
  line of the before text have no entry. An entry is classified as added exactly when
  its before line is empty and the after text has a non-empty line at the same index.
\<close>

theorem calculateLineChanges_aligned:
  "length (calculateLineChanges before after) = length (split_nl before)
   \<and> map source (calculateLineChanges before after) = split_nl before
   \<and> (\<forall>i < length (split_nl before).
        translated (calculateLineChanges before after ! i)
          = (if i < length (split_nl after) then split_nl after ! i else [])
        \<and> (ctype (calculateLineChanges before after ! i) = Added)
          = (split_nl before ! i = [] \<and> i < length (split_nl after) \<and> split_nl after ! i \<noteq> []))"
proof -
  have m: "map source (calculateLineChanges before after) = map snd (enumerate 0 (split_nl before))"
    by (simp add: calculateLineChanges_def Let_def case_prod_beta comp_def)
  show ?thesis
    apply (intro conjI allI impI)
       apply (simp add: calculateLineChanges_def Let_def)
      apply (simp add: m)
     apply (simp add: calculateLineChanges_def Let_def nth_enumerate_eq)
    apply (simp add: calculateLineChanges_def Let_def nth_enumerate_eq)
    done
qed

theorem calculateLineChanges_aligned_witness:
  "length (calculateLineChanges ''a'' ''a\<newline>b'') = length (split_nl ''a'')
   \<and> map source (calculateLineChanges ''a'' ''a\<newline>b'') = [''a'']
   \<and> map ctype (calculateLineChanges ''a'' ''a\<newline>b'') = [Unchanged]
   \<and> length (split_nl ''a\<newline>b'') = 2"
proof -
  have e: "split_nl ''a'' = [''a'']" "split_nl ''a\<newline>b'' = [''a'', ''b'']"
    "calculateLineChanges ''a'' ''a\<newline>b'' = [\<lparr>ctype = Unchanged, source = ''a'', translated = ''a''\<rparr>]"
    by code_simp+
  show ?thesis
    using calculateLineChanges_aligned [of "''a''" "''a\<newline>b''"] by (simp add: e)
qed

end
